theory Spec2Isabelle
  imports Complex_Main
begin

section \<open>Values, errors and paths\<close>

text \<open>
  The dictionaries the program passes around (\<open>disk_info\<close> from the property list,
  \<open>iso_analysis\<close>, the manifest) hold Python values that \<open>json.dump\<close> can write:
  \<open>None\<close>, booleans, integers, floats, strings, lists and dictionaries. A dictionary
  is an association list, so the key order of the source is kept. Floats are modelled
  as exact rationals: no rounding, no infinities.
\<close>

datatype json =
    JNull
  | JBool bool
  | JInt int
  | JNum rat
  | JStr string
  | JList "json list"
  | JObj "(string \<times> json) list"

text \<open>Exceptions of the source are values; \<open>SystemExit n\<close> is \<open>sys.exit(n)\<close>.\<close>

datatype error =
    CalledProcessError string
  | FileNotFoundError
  | RuntimeError string
  | TypeError
  | AttributeError
  | SystemExit int
  | OtherError string

text \<open>
  A \<open>Path\<close> is its string; \<open>dir / name\<close> joins with a slash (relative components
  only) and \<open>.name\<close> is the last component.
\<close>

definition path_join :: "string \<Rightarrow> string \<Rightarrow> string" where
  "path_join d n = d @ ''/'' @ n"

definition path_name :: "string \<Rightarrow> string" where
  "path_name p = rev (takeWhile (\<lambda>c. c \<noteq> CHR ''/'') (rev p))"

section \<open>Numbers and their formatting\<close>

text \<open>
  Floats are exact rationals here. \<open>int(x)\<close> truncates towards zero, \<open>x % m\<close>
  takes the sign of the divisor, \<open>round(x, d)\<close> and the \<open>.df\<close> format round to
  \<open>d\<close> decimals, ties to even. \<open>str_nat\<close> and \<open>str_int\<close> are \<open>str\<close> of an integer.
\<close>

definition digit_char :: "nat \<Rightarrow> char" where
  "digit_char d = ''0123456789'' ! d"

fun str_nat :: "nat \<Rightarrow> string" where
  "str_nat n = (if n < 10 then [digit_char n] else str_nat (n div 10) @ [digit_char (n mod 10)])"

declare str_nat.simps [simp del]

definition str_int :: "int \<Rightarrow> string" where
  "str_int i = (if i < 0 then ''-'' @ str_nat (nat (- i)) else str_nat (nat i))"

definition py_int :: "rat \<Rightarrow> int" where
  "py_int x = (if 0 \<le> x then \<lfloor>x\<rfloor> else \<lceil>x\<rceil>)"

definition py_mod :: "rat \<Rightarrow> rat \<Rightarrow> rat" where
  "py_mod x m = x - m * of_int \<lfloor>x / m\<rfloor>"

definition round_half_even :: "rat \<Rightarrow> int" where
  "round_half_even q =
     (let f = \<lfloor>q\<rfloor>; r = q - of_int f
      in if r < 1 / 2 then f else if 1 / 2 < r then f + 1 else if even f then f else f + 1)"

definition py_round :: "rat \<Rightarrow> nat \<Rightarrow> rat" where
  "py_round x d = of_int (round_half_even (x * 10 ^ d)) / 10 ^ d"

definition zero_pad :: "nat \<Rightarrow> string \<Rightarrow> string" where
  "zero_pad w s = replicate (w - length s) CHR ''0'' @ s"

text \<open>\<open>format_fixed d x\<close> is \<open>f"{x:.df}"\<close>.\<close>

definition format_fixed :: "nat \<Rightarrow> rat \<Rightarrow> string" where
  "format_fixed d x =
     (let n = nat (round_half_even (\<bar>x\<bar> * 10 ^ d))
      in (if x < 0 then ''-'' else []) @ str_nat (n div 10 ^ d) @
         (if d = 0 then [] else ''.'' @ zero_pad d (str_nat (n mod 10 ^ d))))"

section \<open>Dictionaries and dynamic checks\<close>

type_synonym dict = "(string \<times> json) list"

text \<open>\<open>d.get(k, dflt)\<close> and \<open>k in d\<close>.\<close>

definition dict_get :: "dict \<Rightarrow> string \<Rightarrow> json \<Rightarrow> json" where
  "dict_get d k dflt = (case map_of d k of None \<Rightarrow> dflt | Some v \<Rightarrow> v)"

definition has_key :: "dict \<Rightarrow> string \<Rightarrow> bool" where
  "has_key d k = (map_of d k \<noteq> None)"

text \<open>The truth value of a Python value.\<close>

fun truthy :: "json \<Rightarrow> bool" where
  "truthy JNull = False"
| "truthy (JBool b) = b"
| "truthy (JInt i) = (i \<noteq> 0)"
| "truthy (JNum x) = (x \<noteq> 0)"
| "truthy (JStr s) = (s \<noteq> [])"
| "truthy (JList xs) = (xs \<noteq> [])"
| "truthy (JObj kvs) = (kvs \<noteq> [])"

text \<open>
  The numeric value of a Python value in arithmetic and comparisons with numbers
  (\<open>bool\<close> is a subclass of \<open>int\<close>); anything else raises \<open>TypeError\<close> there.
\<close>

fun as_number :: "json \<Rightarrow> rat option" where
  "as_number (JInt i) = Some (of_int i)"
| "as_number (JNum x) = Some x"
| "as_number (JBool b) = Some (if b then 1 else 0)"
| "as_number JNull = None"
| "as_number (JStr s) = None"
| "as_number (JList xs) = None"
| "as_number (JObj kvs) = None"

text \<open>Sequencing of steps that may raise: the first exception ends the computation.\<close>

definition then_do :: "error + 'a \<Rightarrow> ('a \<Rightarrow> error + 'b) \<Rightarrow> error + 'b" where
  "then_do m f = (case m of Inl e \<Rightarrow> Inl e | Inr x \<Rightarrow> f x)"

definition need_number :: "json \<Rightarrow> error + rat" where
  "need_number v = (case as_number v of None \<Rightarrow> Inl TypeError | Some x \<Rightarrow> Inr x)"

text \<open>\<open>v.get(k, dflt)\<close> on a value that must be a dictionary (\<open>AttributeError\<close> otherwise).\<close>

definition obj_get :: "json \<Rightarrow> string \<Rightarrow> json \<Rightarrow> error + json" where
  "obj_get v k dflt = (case v of JObj d \<Rightarrow> Inr (dict_get d k dflt) | _ \<Rightarrow> Inl AttributeError)"

text \<open>
  \<open>for x in v\<close>: a list gives its items, a dictionary its keys, a string its
  characters; the other values are not iterable.
\<close>

definition iter_items :: "json \<Rightarrow> error + json list" where
  "iter_items v =
     (case v of
        JList xs \<Rightarrow> Inr xs
      | JObj kvs \<Rightarrow> Inr (map (\<lambda>kv. JStr (fst kv)) kvs)
      | JStr s \<Rightarrow> Inr (map (\<lambda>c. JStr [c]) s)
      | _ \<Rightarrow> Inl TypeError)"

fun map_result :: "('a \<Rightarrow> error + 'b) \<Rightarrow> 'a list \<Rightarrow> error + 'b list" where
  "map_result f [] = Inr []"
| "map_result f (x # xs) =
     then_do (f x) (\<lambda>y. then_do (map_result f xs) (\<lambda>ys. Inr (y # ys)))"

text \<open>Reading a field of a nested dictionary, for stating properties of the manifest.\<close>

fun get_path :: "string list \<Rightarrow> json \<Rightarrow> json option" where
  "get_path [] v = Some v"
| "get_path (k # ks) (JObj d) = (case map_of d k of None \<Rightarrow> None | Some v \<Rightarrow> get_path ks v)"
| "get_path (k # ks) _ = None"

text \<open>Replacing the value of a field of a nested dictionary, where the field exists.\<close>

fun set_path :: "string list \<Rightarrow> json \<Rightarrow> json \<Rightarrow> json" where
  "set_path [] new v = new"
| "set_path (k # ks) new (JObj d) =
     JObj (map (\<lambda>kv. if fst kv = k then (fst kv, set_path ks new (snd kv)) else kv) d)"
| "set_path (k # ks) new v = v"

section \<open>Data structures\<close>

record BackupConfig =
  disk_id :: string
  volume_name :: string
  filename :: string
  operator :: string
  output_dir :: string
  dry_run :: bool
  no_verification :: bool

definition output_path :: "BackupConfig \<Rightarrow> string" where
  "output_path c = path_join (output_dir c) (filename c @ ''.iso'')"

definition log_path :: "BackupConfig \<Rightarrow> string" where
  "log_path c = path_join (output_dir c) (filename c @ ''.iso.log.txt'')"

definition manifest_path :: "BackupConfig \<Rightarrow> string" where
  "manifest_path c = path_join (output_dir c) (filename c @ ''_manifest.json'')"

definition tree_path :: "BackupConfig \<Rightarrow> string" where
  "tree_path c = path_join (output_dir c) (filename c @ ''_tree.txt'')"

definition isolyzer_path :: "BackupConfig \<Rightarrow> string" where
  "isolyzer_path c = path_join (output_dir c) (filename c @ ''_isolyzer.xml'')"

text \<open>
  \<open>disk_size\<close> is whatever \<open>disk_info.get("TotalSize", 0)\<close> returned, so it is a
  \<open>json\<close> value; the digests are \<open>Optional[str]\<close>.
\<close>

record BackupResult =
  success :: bool
  iso_path :: string
  disk_size :: json
  md5_iso :: "string option"
  md5_raw :: "string option"
  creation_time :: rat
  verification_time :: rat
  error_message :: "string option"

text \<open>Truth value of an \<open>Optional[str]\<close>: \<open>None\<close> and the empty string are false.\<close>

definition truthy_str :: "string option \<Rightarrow> bool" where
  "truthy_str s = (case s of None \<Rightarrow> False | Some t \<Rightarrow> t \<noteq> [])"

definition checksum_match :: "BackupResult \<Rightarrow> bool option" where
  "checksum_match r =
     (if truthy_str (md5_iso r) \<and> truthy_str (md5_raw r)
      then Some (md5_iso r = md5_raw r)
      else None)"

definition total_time :: "BackupResult \<Rightarrow> rat" where
  "total_time r = creation_time r + verification_time r"

text \<open>\<open>speed_mb_s\<close>: \<open>disk_size / duration\<close> needs a number when \<open>duration > 0\<close>.\<close>

definition speed_mb_s :: "BackupResult \<Rightarrow> rat \<Rightarrow> error + rat" where
  "speed_mb_s r duration =
     (if duration > 0
      then then_do (need_number (disk_size r))
             (\<lambda>n. Inr (py_round ((n / duration) / (1024 * 1024)) 2))
      else Inr 0)"

section \<open>Duration formatting\<close>

text \<open>
  \<open>_format_duration\<close>: the two locals \<open>minutes\<close> and \<open>remaining_seconds\<close>, and the
  string built from them.
\<close>

definition duration_minutes :: "rat \<Rightarrow> int" where
  "duration_minutes seconds = py_int seconds div 60"

definition duration_remaining :: "rat \<Rightarrow> rat" where
  "duration_remaining seconds = py_round (py_mod seconds 60) 2"

definition format_duration :: "rat \<Rightarrow> string" where
  "format_duration seconds =
     (if seconds = 0 then ''0 seconds''
      else let minutes = duration_minutes seconds;
               remaining_seconds = duration_remaining seconds
           in if minutes > 0
              then str_int minutes @ '' minutes, '' @
                   format_fixed 2 remaining_seconds @ '' seconds''
              else format_fixed 2 remaining_seconds @ '' seconds'')"

section \<open>Progress computation\<close>

text \<open>
  \<open>_display_progress\<close> reads the clock (\<open>now\<close>) and computes the locals below; the
  record holds them, with the two integers handed to \<open>timedelta\<close> for the elapsed
  and remaining lines and the number formatted as the speed. The cursor control and
  the colours of the four lines are not modelled. \<open>total_size\<close> (the source's \<open>total\<close>) is the numeric value of
  \<open>disk_size\<close>.
\<close>

record progress =
  p_elapsed :: rat
  p_speed :: rat
  p_remaining :: rat
  p_eta :: rat
  p_mb_current :: rat
  p_mb_total :: rat
  p_speed_mb :: rat
  elapsed_shown :: int
  remaining_shown :: int

definition display_progress :: "int \<Rightarrow> rat \<Rightarrow> rat \<Rightarrow> rat \<Rightarrow> progress" where
  "display_progress current total_size start_time now =
     (let elapsed = now - start_time;
          speed = (if elapsed > 0 then of_int current / elapsed else 0);
          remaining = max 0 (total_size - of_int current);
          eta = (if speed > 0 then remaining / speed else 0)
      in \<lparr>p_elapsed = elapsed, p_speed = speed, p_remaining = remaining, p_eta = eta,
          p_mb_current = of_int current / (1024 * 1024),
          p_mb_total = total_size / (1024 * 1024),
          p_speed_mb = speed / (1024 * 1024),
          elapsed_shown = py_int elapsed,
          remaining_shown = py_int eta\<rparr>)"

text \<open>The two formulas as the specification words them, to compare with the code.\<close>

definition spec_throughput :: "int \<Rightarrow> rat \<Rightarrow> rat" where
  "spec_throughput bytes_done elapsed_seconds =
     (if elapsed_seconds > 0 then of_int bytes_done / elapsed_seconds else 0)"

definition spec_remaining :: "rat \<Rightarrow> int \<Rightarrow> rat \<Rightarrow> rat" where
  "spec_remaining bytes_total bytes_done throughput =
     (if throughput > 0 then max 0 (bytes_total - of_int bytes_done) / throughput else 0)"

section \<open>The exit status chosen by \<open>main\<close>\<close>

text \<open>
  The tail of \<open>main\<close>: \<open>sys.exit(2)\<close> when the result is successful and
  \<open>checksum_match is False\<close>, \<open>sys.exit(0)\<close> when it is successful otherwise,
  \<open>sys.exit(1)\<close> when it is not successful.
\<close>

definition main_exit :: "BackupResult \<Rightarrow> int" where
  "main_exit result =
     (if success result
      then (if checksum_match result = Some False then 2 else 0)
      else 1)"

section \<open>The copy loop\<close>

text \<open>
  \<open>hashlib.md5()\<close> is a library object. Its state is modelled by the bytes fed to it
  so far (\<open>update\<close> appends, as the library documents: repeated calls are equivalent
  to one call with the concatenation); the digest function itself is a parameter
  \<open>md5hex\<close> of everything that calls \<open>hexdigest\<close>.
\<close>

type_synonym md5_hasher = string

definition md5_new :: md5_hasher where
  "md5_new = []"

definition md5_update :: "md5_hasher \<Rightarrow> string \<Rightarrow> md5_hasher" where
  "md5_update h chunk = h @ chunk"

definition hexdigest :: "(string \<Rightarrow> string) \<Rightarrow> md5_hasher \<Rightarrow> string" where
  "hexdigest md5hex h = md5hex h"

text \<open>
  The state of the loop in \<open>_create_and_verify_iso\<close>: the bytes written to
  \<open>iso_file\<close>, the two hashers and \<open>bytes_written\<close>.
\<close>

record copy_state =
  iso_file :: string
  iso_hasher :: md5_hasher
  raw_hasher :: md5_hasher
  bytes_written :: int

definition copy_init :: copy_state where
  "copy_init = \<lparr>iso_file = [], iso_hasher = md5_new, raw_hasher = md5_new, bytes_written = 0\<rparr>"

text \<open>One iteration after the emptiness test: write, update both hashers, count.\<close>

definition copy_step :: "string \<Rightarrow> copy_state \<Rightarrow> copy_state" where
  "copy_step chunk st =
     \<lparr>iso_file = iso_file st @ chunk,
      iso_hasher = md5_update (iso_hasher st) chunk,
      raw_hasher = md5_update (raw_hasher st) chunk,
      bytes_written = bytes_written st + int (length chunk)\<rparr>"

text \<open>
  The source stream is the list of values that the successive calls
  \<open>proc.stdout.read(4 * 1024 * 1024)\<close> return; once the list is used up the read
  returns \<open>b''\<close> (end of stream). \<open>while True: chunk = read(); if not chunk: break\<close>
  stops at the first empty chunk.
\<close>

fun copy_loop :: "string list \<Rightarrow> copy_state \<Rightarrow> copy_state" where
  "copy_loop [] st = st"
| "copy_loop (chunk # rest) st =
     (if chunk = [] then st else copy_loop rest (copy_step chunk st))"

text \<open>The blocks the loop reads before it sees the end of the stream.\<close>

definition blocks_read :: "string list \<Rightarrow> string list" where
  "blocks_read blocks = takeWhile (\<lambda>c. c \<noteq> []) blocks"

section \<open>The manifest\<close>

text \<open>
  What \<open>_create_manifest\<close> reads besides its arguments: the clock (\<open>now\<close>), a fresh
  \<open>uuid4()\<close>, the \<open>platform\<close> module, the tree listing and the size of the ISO file.
\<close>

record datetime =
  dt_year :: nat
  dt_month :: nat
  dt_day :: nat
  dt_hour :: nat
  dt_minute :: nat
  dt_second :: nat

text \<open>\<open>now.strftime('%Y%m%dT%H%M%S')\<close> and \<open>now.isoformat(timespec="seconds")\<close>.\<close>

definition strftime_compact :: "datetime \<Rightarrow> string" where
  "strftime_compact t =
     zero_pad 4 (str_nat (dt_year t)) @ zero_pad 2 (str_nat (dt_month t)) @
     zero_pad 2 (str_nat (dt_day t)) @ ''T'' @ zero_pad 2 (str_nat (dt_hour t)) @
     zero_pad 2 (str_nat (dt_minute t)) @ zero_pad 2 (str_nat (dt_second t))"

definition isoformat_seconds :: "datetime \<Rightarrow> string" where
  "isoformat_seconds t =
     zero_pad 4 (str_nat (dt_year t)) @ ''-'' @ zero_pad 2 (str_nat (dt_month t)) @ ''-'' @
     zero_pad 2 (str_nat (dt_day t)) @ ''T'' @ zero_pad 2 (str_nat (dt_hour t)) @ '':'' @
     zero_pad 2 (str_nat (dt_minute t)) @ '':'' @ zero_pad 2 (str_nat (dt_second t))"

record platform_info =
  platform_system :: string
  platform_release :: string
  platform_version :: string
  platform_machine :: string
  platform_processor :: string
  platform_node :: string
  platform_python_version :: string

text \<open>The local function \<open>format_bytes\<close> of \<open>_create_manifest\<close>.\<close>

fun format_bytes_units :: "string list \<Rightarrow> rat \<Rightarrow> string" where
  "format_bytes_units [] bytes_val = format_fixed 1 bytes_val @ '' TB''"
| "format_bytes_units (unit # units) bytes_val =
     (if bytes_val < 1024 then format_fixed 1 bytes_val @ '' '' @ unit
      else format_bytes_units units (bytes_val / 1024))"

definition format_bytes :: "json \<Rightarrow> error + string" where
  "format_bytes v =
     then_do (need_number v) (\<lambda>x. Inr (format_bytes_units [''B'', ''KB'', ''MB'', ''GB''] x))"

definition opt_str :: "string option \<Rightarrow> json" where
  "opt_str s = (case s of None \<Rightarrow> JNull | Some t \<Rightarrow> JStr t)"

definition opt_bool :: "bool option \<Rightarrow> json" where
  "opt_bool b = (case b of None \<Rightarrow> JNull | Some t \<Rightarrow> JBool t)"

definition backup_metadata :: "BackupConfig \<Rightarrow> datetime \<Rightarrow> string \<Rightarrow> json" where
  "backup_metadata cfg now uuid =
     JObj [
       (''run_id'', JStr (strftime_compact now @ ''_'' @ operator cfg @ ''_'' @ disk_id cfg)),
       (''uuid'', JStr uuid),
       (''tool_name'', JStr ''Optical Disc ISO Backup Utility''),
       (''tool_version'', JStr ''v14-streamlined''),
       (''created'', JStr (isoformat_seconds now)),
       (''operator'', JStr (operator cfg)),
       (''dry_run'', JBool (dry_run cfg))]"

definition backup_status :: "BackupConfig \<Rightarrow> BackupResult \<Rightarrow> nat option \<Rightarrow> json" where
  "backup_status cfg result iso_file_size =
     JObj [
       (''overall_status'', JStr (if success result then ''success'' else ''failed'')),
       (''iso_created'', JBool (iso_file_size \<noteq> None)),
       (''verification_performed'', JBool (\<not> no_verification cfg \<and> \<not> dry_run cfg)),
       (''verification_passed'',
          (case checksum_match result of None \<Rightarrow> JStr ''skipped'' | Some b \<Rightarrow> JBool b)),
       (''errors'',
          (if truthy_str (error_message result) then opt_str (error_message result) else JNull))]"

definition source_disc :: "BackupConfig \<Rightarrow> dict \<Rightarrow> json" where
  "source_disc cfg disk_info =
     JObj [
       (''disk_identifier'', JStr (disk_id cfg)),
       (''device_path'', JStr (''/dev/'' @ disk_id cfg)),
       (''raw_device_path'', JStr (''/dev/r'' @ disk_id cfg)),
       (''volume_name'', JStr (volume_name cfg)),
       (''media_type'', dict_get disk_info ''OpticalMediaType'' (JStr ''Unknown'')),
       (''filesystem'',
          dict_get disk_info ''FilesystemName''
            (dict_get disk_info ''FilesystemType'' (JStr ''Unknown''))),
       (''drive_model'',
          dict_get disk_info ''MediaName''
            (dict_get disk_info ''IORegistryEntryName'' (JStr ''Unknown''))),
       (''drive_capabilities'', dict_get disk_info ''OpticalDeviceType'' (JStr ''Unknown'')),
       (''connection_type'', dict_get disk_info ''BusProtocol'' (JStr ''Unknown'')),
       (''erasable'', dict_get disk_info ''OpticalMediaErasable'' (JBool False)),
       (''read_only'', JBool (\<not> truthy (dict_get disk_info ''Writable'' (JBool True))))]"

definition volume_information :: "BackupConfig \<Rightarrow> BackupResult \<Rightarrow> dict \<Rightarrow> error + json" where
  "volume_information cfg result disk_info =
     then_do (format_bytes (disk_size result)) (\<lambda>total_formatted.
     then_do (format_bytes (dict_get disk_info ''VolumeSize'' (disk_size result))) (\<lambda>used_formatted.
       Inr (JObj [
         (''total_size_bytes'', disk_size result),
         (''total_size_formatted'', JStr total_formatted),
         (''used_space_bytes'', dict_get disk_info ''VolumeSize'' (disk_size result)),
         (''used_space_formatted'', JStr used_formatted),
         (''allocation_block_size'',
            dict_get disk_info ''VolumeAllocationBlockSize''
              (dict_get disk_info ''DeviceBlockSize'' (JStr ''Unknown''))),
         (''mount_point'',
            dict_get disk_info ''MountPoint'' (JStr (''/Volumes/'' @ volume_name cfg)))])))"

definition output_files :: "BackupConfig \<Rightarrow> BackupResult \<Rightarrow> nat option \<Rightarrow> json" where
  "output_files cfg result iso_file_size =
     JObj [
       (''iso_filename'', JStr (path_name (iso_path result))),
       (''iso_file_size_bytes'',
          (case iso_file_size of None \<Rightarrow> JNull | Some n \<Rightarrow> JInt (int n))),
       (''iso_file_size_formatted'',
          (case iso_file_size of
             None \<Rightarrow> JNull
           | Some n \<Rightarrow>
               if n \<noteq> 0
               then JStr (format_bytes_units [''B'', ''KB'', ''MB'', ''GB''] (of_nat n))
               else JNull)),
       (''output_directory'', JStr (output_dir cfg)),
       (''log_filename'', JStr (path_name (log_path cfg))),
       (''tree_filename'', JStr (path_name (tree_path cfg))),
       (''isolyzer_filename'', JStr (path_name (isolyzer_path cfg))),
       (''manifest_filename'', JStr (path_name (manifest_path cfg)))]"

definition shell_equivalent :: "BackupConfig \<Rightarrow> BackupResult \<Rightarrow> string" where
  "shell_equivalent cfg result =
     ''[ \"$(md5 -q '' @ path_name (iso_path result) @ '')\" = \"$(dd if=/dev/r'' @ disk_id cfg @
     '' bs=4m 2>/dev/null | md5 -q)\" ] && echo \"MATCH\" || echo \"MISMATCH\"''"

definition operations_performed :: "BackupConfig \<Rightarrow> BackupResult \<Rightarrow> json \<Rightarrow> json" where
  "operations_performed cfg result tree_summary =
     JObj [
       (''tree_listing'', JObj [
          (''command'', JStr (''tree -RapugD --si --du /Volumes/'' @ volume_name cfg)),
          (''output_file'', JStr (path_name (tree_path cfg))),
          (''summary'', tree_summary)]),
       (''disk_unmount'', JObj [
          (''command'', JStr (''diskutil unmountDisk /dev/'' @ disk_id cfg)),
          (''status'', JStr (if \<not> dry_run cfg then ''success'' else ''skipped''))]),
       (''iso_creation'', JObj [
          (''command'',
             JStr (''dd if=/dev/r'' @ disk_id cfg @ '' of='' @ iso_path result @ '' bs=4m'')),
          (''method'', JStr ''parallel processing with simultaneous hash calculation''),
          (''block_size'', JStr ''4MB''),
          (''performed'', JBool (\<not> dry_run cfg))]),
       (''verification'', JObj [
          (''method'', JStr ''md5 hash comparison (ISO file vs raw device stream)''),
          (''algorithm'', JStr ''MD5''),
          (''algorithm_bits'', JInt 128),
          (''performed'', JBool (\<not> no_verification cfg \<and> \<not> dry_run cfg)),
          (''shell_equivalent'', JStr (shell_equivalent cfg result))]),
       (''finalization'', JObj [
          (''remount_command'', JStr (''diskutil mount /dev/'' @ disk_id cfg)),
          (''eject_command'', JStr (''diskutil eject /dev/'' @ disk_id cfg)),
          (''status'', JStr (if \<not> dry_run cfg then ''completed'' else ''skipped''))])]"

definition timing_performance :: "BackupResult \<Rightarrow> error + json" where
  "timing_performance result =
     then_do (speed_mb_s result (creation_time result)) (\<lambda>speed.
       Inr (JObj [
         (''iso_creation'', JObj [
            (''duration_seconds'', JNum (creation_time result)),
            (''duration_formatted'', JStr (format_duration (creation_time result))),
            (''average_speed_mb_s'', JNum speed),
            (''average_speed_formatted'', JStr (format_fixed 2 speed @ '' MB/s''))]),
         (''verification'', JObj [
            (''duration_seconds'', JNum 0),
            (''duration_formatted'', JStr ''Performed during creation''),
            (''note'',
               JStr ''Verification performed during ISO creation (parallel processing)'')]),
         (''total_operation'', JObj [
            (''duration_seconds'', JNum (creation_time result)),
            (''duration_formatted'', JStr (format_duration (creation_time result))),
            (''efficiency_note'',
               JStr ''~50% time savings vs sequential read/verify operations'')])]))"

definition integrity_verification :: "BackupResult \<Rightarrow> json" where
  "integrity_verification result =
     JObj [
       (''hash_algorithm'', JStr ''MD5''),
       (''hash_length_bits'', JInt 128),
       (''iso_hash'', opt_str (md5_iso result)),
       (''source_hash'', opt_str (md5_raw result)),
       (''hashes_match'', opt_bool (checksum_match result)),
       (''verification_method'', JStr ''Parallel hash calculation during creation''),
       (''integrity_status'',
          JStr (if checksum_match result = Some True then ''verified''
                else if checksum_match result = Some False then ''failed''
                else ''not_performed'')),
       (''notes'',
          (if checksum_match result = Some True
           then JStr ''ISO verified as bit-perfect copy'' else JNull))]"

text \<open>\<open>_extract_filesystem_info\<close>: one entry per item of \<open>filesystems\<close>.\<close>

definition filesystem_details :: "dict \<Rightarrow> dict" where
  "filesystem_details fs =
     (if dict_get fs ''type'' JNull = JStr ''ISO 9660'' then
        [(''volume_identifier'', dict_get fs ''volume_identifier'' JNull),
         (''creation_date'', dict_get fs ''volume_creation_date'' JNull),
         (''publisher'', dict_get fs ''publisher'' JNull),
         (''data_preparer'', dict_get fs ''data_preparer'' JNull),
         (''logical_block_size'', dict_get fs ''logical_block_size'' JNull),
         (''volume_space_size'', dict_get fs ''volume_space_size'' JNull)]
      else if dict_get fs ''type'' JNull = JStr ''UDF'' then
        [(''logical_volume_identifier'', dict_get fs ''logical_volume_identifier'' JNull),
         (''logical_block_size'', dict_get fs ''logical_block_size'' JNull),
         (''implementation'', dict_get fs ''implementation'' JNull)]
      else [])"

definition filesystem_entry :: "json \<Rightarrow> error + json" where
  "filesystem_entry item =
     (case item of
        JObj fs \<Rightarrow>
          Inr (JObj [
            (''type'', dict_get fs ''type'' JNull),
            (''details'', JObj (filter (\<lambda>kv. snd kv \<noteq> JNull) (filesystem_details fs)))])
      | _ \<Rightarrow> Inl AttributeError)"

definition extract_filesystem_info :: "dict \<Rightarrow> error + json list" where
  "extract_filesystem_info iso_analysis =
     then_do (iter_items (dict_get iso_analysis ''filesystems'' (JList [])))
       (map_result filesystem_entry)"

definition iso9660_xpath :: string where
  "iso9660_xpath =
     ''/isolyzer/image/fileSystems/fileSystem[@TYPE='' @ [CHR 0x27] @ ''ISO 9660'' @ [CHR 0x27] @ '']''"

definition udf_xpath :: string where
  "udf_xpath =
     ''/isolyzer/image/fileSystems/fileSystem[@TYPE='' @ [CHR 0x27] @ ''UDF'' @ [CHR 0x27] @ '']''"

definition xml_field_mappings :: json where
  "xml_field_mappings =
     JObj [
       (''note'', JStr ''This section documents which XML elements from the raw isolyzer output map to the fields above''),
       (''tool_info'', JObj [
          (''tool_used'', JStr ''/isolyzer/toolInfo/toolName''),
          (''tool_version'', JStr ''/isolyzer/toolInfo/toolVersion'')]),
       (''status_fields'', JObj [
          (''analysis_successful'', JStr ''/isolyzer/image/statusInfo/success'')]),
       (''test_fields'', JObj [
          (''contains_known_filesystem'', JStr ''/isolyzer/image/tests/containsKnownFileSystem''),
          (''size_expected_bytes'', JStr ''/isolyzer/image/tests/sizeExpected''),
          (''size_actual_bytes'', JStr ''/isolyzer/image/tests/sizeActual''),
          (''size_difference_bytes'', JStr ''/isolyzer/image/tests/sizeDifference''),
          (''size_difference_sectors'', JStr ''/isolyzer/image/tests/sizeDifferenceSectors''),
          (''size_as_expected'', JStr ''/isolyzer/image/tests/sizeAsExpected''),
          (''smaller_than_expected'', JStr ''/isolyzer/image/tests/smallerThanExpected''),
          (''valid_iso9660'', JStr (''presence of '' @ iso9660_xpath)),
          (''contains_udf'', JStr (''presence of '' @ udf_xpath))]),
       (''iso9660_fields'', JObj [
          (''volume_identifier'',
             JStr (iso9660_xpath @ ''/primaryVolumeDescriptor/volumeIdentifier'')),
          (''creation_date'',
             JStr (iso9660_xpath @ ''/primaryVolumeDescriptor/volumeCreationDateAndTime'')),
          (''publisher'',
             JStr (iso9660_xpath @ ''/primaryVolumeDescriptor/publisherIdentifier'')),
          (''data_preparer'',
             JStr (iso9660_xpath @ ''/primaryVolumeDescriptor/dataPreparerIdentifier'')),
          (''logical_block_size'',
             JStr (iso9660_xpath @ ''/primaryVolumeDescriptor/logicalBlockSize'')),
          (''volume_space_size'',
             JStr (iso9660_xpath @ ''/primaryVolumeDescriptor/volumeSpaceSize''))]),
       (''udf_fields'', JObj [
          (''logical_volume_identifier'',
             JStr (udf_xpath @ ''/logicalVolumeDescriptor/logicalVolumeIdentifier'')),
          (''logical_block_size'',
             JStr (udf_xpath @ ''/logicalVolumeDescriptor/logicalBlockSize'')),
          (''implementation'',
             JStr (udf_xpath @ ''/logicalVolumeDescriptor/implementationIdentifier''))])]"

text \<open>
  The \<open>structural_analysis\<close> section. The steps that can raise come in the order
  of the dictionary literal: the two nested \<open>.get\<close> on \<open>tool_info\<close>, the two
  divisions by 1024, the comparison with 0, and \<open>_extract_filesystem_info\<close>.
\<close>

definition structural_analysis :: "dict \<Rightarrow> error + json" where
  "structural_analysis iso_analysis =
     then_do (obj_get (dict_get iso_analysis ''tool_info'' (JObj [])) ''name'' (JStr ''isolyzer''))
       (\<lambda>tool_used.
     then_do (obj_get (dict_get iso_analysis ''tool_info'' (JObj [])) ''version'' (JStr ''unknown''))
       (\<lambda>tool_version.
     then_do (need_number (dict_get iso_analysis ''size_expected'' (JInt 0))) (\<lambda>size_expected.
     then_do (need_number (dict_get iso_analysis ''size_actual'' (JInt 0))) (\<lambda>size_actual.
     then_do (need_number (dict_get iso_analysis ''size_difference_bytes'' (JInt 0)))
       (\<lambda>size_difference.
     then_do (extract_filesystem_info iso_analysis) (\<lambda>filesystems.
       Inr (JObj [
         (''tool_used'', tool_used),
         (''tool_version'', tool_version),
         (''analysis_performed'',
            JBool (\<not> truthy (dict_get iso_analysis ''skipped'' (JBool False)) \<and>
                   \<not> has_key iso_analysis ''error'')),
         (''analysis_successful'', dict_get iso_analysis ''status_success'' (JBool False)),
         (''valid_iso9660'', dict_get iso_analysis ''valid_iso9660'' (JBool False)),
         (''contains_udf'', dict_get iso_analysis ''has_udf'' (JBool False)),
         (''size_validation'', JObj [
            (''size_as_expected'', dict_get iso_analysis ''size_as_expected'' (JBool True)),
            (''size_expected_bytes'', dict_get iso_analysis ''size_expected'' (JInt 0)),
            (''size_actual_bytes'', dict_get iso_analysis ''size_actual'' (JInt 0)),
            (''size_difference_bytes'', dict_get iso_analysis ''size_difference_bytes'' (JInt 0)),
            (''size_difference_sectors'',
               dict_get iso_analysis ''size_difference_sectors'' (JInt 0)),
            (''smaller_than_expected'',
               dict_get iso_analysis ''smaller_than_expected'' (JBool False)),
            (''contains_known_filesystem'',
               dict_get iso_analysis ''contains_known_filesystem'' (JBool True)),
            (''size_expected_formatted'',
               JStr (format_fixed 1 (size_expected / 1024 / 1024) @ '' MB'')),
            (''size_actual_formatted'',
               JStr (format_fixed 1 (size_actual / 1024 / 1024) @ '' MB'')),
            (''note'',
               (if size_difference > 0
                then JStr ''Small differences (1-2 sectors) are normal for optical media''
                else JNull))]),
         (''filesystems_detected'', JList filesystems),
         (''warnings'', dict_get iso_analysis ''warnings'' (JList [])),
         (''error'', dict_get iso_analysis ''error'' JNull),
         (''xml_field_mappings'', xml_field_mappings)])))))))"

definition system_environment :: "platform_info \<Rightarrow> json" where
  "system_environment pf =
     JObj [
       (''operating_system'', JStr (platform_system pf)),
       (''os_version'', JStr (platform_release pf)),
       (''kernel_version'', JStr (platform_version pf)),
       (''machine_architecture'', JStr (platform_machine pf)),
       (''processor'', JStr (platform_processor pf)),
       (''hostname'', JStr (platform_node pf)),
       (''python_version'', JStr (platform_python_version pf)),
       (''user_context'', JStr ''sudo required for raw device access'')]"

definition technical_details :: "BackupConfig \<Rightarrow> BackupResult \<Rightarrow> dict \<Rightarrow> json" where
  "technical_details cfg result disk_info =
     JObj [
       (''source_device_properties'', JObj [
          (''device_identifier'', dict_get disk_info ''DeviceIdentifier'' JNull),
          (''device_node'', dict_get disk_info ''DeviceNode'' JNull),
          (''ejectable'', dict_get disk_info ''Ejectable'' JNull),
          (''removable'', dict_get disk_info ''Removable'' JNull),
          (''internal'', dict_get disk_info ''Internal'' JNull),
          (''smart_status'', dict_get disk_info ''SMARTStatus'' JNull),
          (''bootable'', dict_get disk_info ''Bootable'' JNull),
          (''writable'', dict_get disk_info ''Writable'' JNull)]),
       (''backup_parameters'', JObj [
          (''dd_block_size'', JStr ''4MB''),
          (''read_device'', JStr (''/dev/r'' @ disk_id cfg)),
          (''write_destination'', JStr (iso_path result)),
          (''parallel_processing'', JBool True),
          (''verification_during_creation'', JBool True),
          (''error_handling'', JStr ''standard dd error handling'')])]"

definition quality_assurance :: "BackupResult \<Rightarrow> dict \<Rightarrow> json" where
  "quality_assurance result iso_analysis =
     JObj [
       (''verification_levels'', JList [
          JObj [
            (''type'', JStr ''bit_perfect_copy''),
            (''method'', JStr ''MD5 hash comparison''),
            (''status'',
               JStr (if checksum_match result = Some True then ''verified'' else ''failed'')),
            (''confidence'',
               JStr (if checksum_match result = Some True then ''100%'' else ''0%''))],
          JObj [
            (''type'', JStr ''structural_integrity''),
            (''method'', JStr ''isolyzer analysis''),
            (''status'',
               JStr (if truthy (dict_get iso_analysis ''valid_iso9660'' JNull) \<and>
                        truthy (dict_get iso_analysis ''status_success'' JNull)
                     then ''verified''
                     else if truthy (dict_get iso_analysis ''error'' JNull) then ''failed''
                     else ''not_performed'')),
            (''confidence'',
               JStr (if truthy (dict_get iso_analysis ''valid_iso9660'' JNull)
                     then ''high'' else ''unknown''))]]),
       (''recommended_verifications'', JList [
          JStr ''Mount created ISO and compare file structure'',
          JStr ''Test ISO in target environment'',
          JStr ''Verify specific files if critical data'',
          JStr ''Check isolyzer analysis for structural issues'']),
       (''backup_best_practices'', JList [
          JStr ''Store ISO in multiple locations'',
          JStr ''Create checksum file for long-term storage'',
          JStr ''Document any disc damage or read errors'',
          JStr ''Keep isolyzer analysis for format validation'']),
       (''manifest_notes'', JStr ''This manifest provides comprehensive backup documentation including both bit-level and structural verification for audit and validation purposes'')]"

text \<open>
  The dictionary \<open>manifest\<close> of \<open>_create_manifest\<close>, in the key order of the source.
  The sections that can raise are evaluated in the order of the literal
  (\<open>volume_information\<close>, \<open>timing_performance\<close>, \<open>structural_analysis\<close>); the others
  cannot raise.
\<close>

definition manifest_dict ::
  "BackupConfig \<Rightarrow> datetime \<Rightarrow> string \<Rightarrow> platform_info \<Rightarrow> json \<Rightarrow> nat option \<Rightarrow>
   BackupResult \<Rightarrow> dict \<Rightarrow> dict \<Rightarrow> error + json" where
  "manifest_dict cfg now uuid pf tree_summary iso_file_size result disk_info iso_analysis =
     then_do (volume_information cfg result disk_info) (\<lambda>volume.
     then_do (timing_performance result) (\<lambda>timing.
     then_do (structural_analysis iso_analysis) (\<lambda>structural.
       Inr (JObj [
         (''backup_metadata'', backup_metadata cfg now uuid),
         (''backup_status'', backup_status cfg result iso_file_size),
         (''source_disc'', source_disc cfg disk_info),
         (''volume_information'', volume),
         (''output_files'', output_files cfg result iso_file_size),
         (''operations_performed'', operations_performed cfg result tree_summary),
         (''timing_performance'', timing),
         (''integrity_verification'', integrity_verification result),
         (''structural_analysis'', structural),
         (''system_environment'', system_environment pf),
         (''technical_details'', technical_details cfg result disk_info),
         (''quality_assurance'', quality_assurance result iso_analysis)]))))"

section \<open>The run and its environment\<close>

text \<open>
  The file system is a map from paths to contents; directories and failing writes are
  not modelled. Console output and the in-memory log buffer are not modelled either:
  no branch of the functions below reads them, except the text of the formatted log.
\<close>

type_synonym files = "string \<Rightarrow> string option"

text \<open>
  How a call of an external command ended: it completed with an output, it exited
  with a non-zero status where the call has \<open>check=True\<close> (\<open>CalledProcessError\<close>, with
  its text), the executable was not found (\<open>FileNotFoundError\<close>), or another
  exception with its text.
\<close>

datatype 'a outcome = Completed 'a | NonZeroExit string | NotFound | Failed string

definition raised :: "'a outcome \<Rightarrow> error" where
  "raised oc =
     (case oc of
        Completed x \<Rightarrow> OtherError []
      | NonZeroExit msg \<Rightarrow> CalledProcessError msg
      | NotFound \<Rightarrow> FileNotFoundError
      | Failed msg \<Rightarrow> OtherError msg)"

text \<open>
  Everything a run reads from outside, in the order of the run: the effective user
  id, the two \<open>diskutil info\<close> calls, the line typed at the overwrite prompt (a
  Python \<open>str\<close>, given by its Unicode code points; \<open>None\<close> when the operator
  interrupts), \<open>tree\<close>, \<open>diskutil unmountDisk\<close>, the blocks that
  \<open>dd\<close> delivers with its return code and its standard error, the seconds the copy
  took, \<open>isolyzer\<close>, the \<open>diskutil info\<close> of the finalization of a dry run, the clock
  at the start and at the manifest, the fresh UUID and the platform. An interrupt
  during the copy (which ends the process with status 1) and an end of input at the
  prompt are not modelled.
\<close>

record environment =
  euid :: nat
  disk_info_cmd :: "dict outcome"
  metadata_cmd :: "string outcome"
  overwrite_answer :: "nat list option"
  tree_cmd :: "string outcome"
  unmount_cmd :: "string outcome"
  dd_blocks :: "string list"
  dd_returncode :: int
  dd_stderr :: string
  copy_seconds :: rat
  isolyzer_cmd :: "string outcome"
  finalize_cmd :: "string outcome"
  run_start :: datetime
  manifest_now :: datetime
  fresh_uuid :: string
  platform :: platform_info

text \<open>
  Library functions and text layouts that stay parameters: the MD5 digest,
  \<open>json.dump\<close>, the case mapping of the Unicode database that \<open>str.lower\<close> applies
  to a string with a character outside ASCII, the parser \<open>_parse_isolyzer_xml\<close> (built on \<open>xml.etree\<close>; it catches
  every exception and always returns a dictionary whose \<open>warnings\<close>, when present,
  is a list), the regular-expression search of \<open>_extract_tree_summary\<close> on the text of
  the tree listing, and the text that \<open>create_formatted_log\<close> lays out. The log text
  may depend on the fields of the configuration that \<open>create_formatted_log\<close> and the
  logged messages read (all but \<open>no_verification\<close>, which the source reads only in
  the two manifest fields), on the result, the disk information, the environment and
  the files.
\<close>

record externals =
  md5hex :: "string \<Rightarrow> string"
  json_dump :: "json \<Rightarrow> string"
  unicode_lower :: "nat list \<Rightarrow> nat list"
  parse_isolyzer_xml :: "string \<Rightarrow> dict"
  tree_summary_of :: "string \<Rightarrow> json"
  log_text ::
    "string \<times> string \<times> string \<times> string \<times> string \<times> bool \<Rightarrow>
     BackupResult \<Rightarrow> dict \<Rightarrow> environment \<Rightarrow> files \<Rightarrow> string"

definition log_fields :: "BackupConfig \<Rightarrow> string \<times> string \<times> string \<times> string \<times> string \<times> bool" where
  "log_fields cfg =
     (disk_id cfg, volume_name cfg, filename cfg, operator cfg, output_dir cfg, dry_run cfg)"

subsection \<open>Prompt\<close>

text \<open>
  The line typed at the prompt is a Python \<open>str\<close>: a list of Unicode code points.
  \<open>code_points\<close> gives the code points of an ASCII literal of the source.
\<close>

definition code_points :: "string \<Rightarrow> nat list" where
  "code_points s = map of_char s"

text \<open>
  \<open>str.strip()\<close> removes, at both ends, the characters that Python counts as white
  space: the 29 code points below (ten of ASCII, then U+0085, U+00A0, U+1680,
  U+2000 to U+200A, U+2028, U+2029, U+202F, U+205F and U+3000).
\<close>

definition is_space :: "nat \<Rightarrow> bool" where
  "is_space c =
     (c \<in> set [0x09, 0x0A, 0x0B, 0x0C, 0x0D, 0x1C, 0x1D, 0x1E, 0x1F, 0x20,
                0x85, 0xA0, 0x1680,
                0x2000, 0x2001, 0x2002, 0x2003, 0x2004, 0x2005, 0x2006, 0x2007, 0x2008,
                0x2009, 0x200A,
                0x2028, 0x2029, 0x202F, 0x205F, 0x3000])"

definition strip :: "nat list \<Rightarrow> nat list" where
  "strip s = rev (dropWhile is_space (rev (dropWhile is_space s)))"

text \<open>
  \<open>str.lower()\<close>: on a string of ASCII characters only, \<open>A\<close> to \<open>Z\<close> become \<open>a\<close>
  to \<open>z\<close> and the other characters stay; on any other string the result is that
  of the case mapping of the Unicode database, the parameter \<open>full_lower\<close>.
\<close>

definition ascii_lower :: "nat \<Rightarrow> nat" where
  "ascii_lower c = (if 0x41 \<le> c \<and> c \<le> 0x5A then c + 0x20 else c)"

definition lower :: "(nat list \<Rightarrow> nat list) \<Rightarrow> nat list \<Rightarrow> nat list" where
  "lower full_lower s =
     (if list_all (\<lambda>c. c < 0x80) s then map ascii_lower s else full_lower s)"

text \<open>
  \<open>get_input\<close>: the stripped line, or \<open>sys.exit(1)\<close> on \<open>KeyboardInterrupt\<close>.
\<close>

definition get_input :: "nat list option \<Rightarrow> error + nat list" where
  "get_input typed =
     (case typed of None \<Rightarrow> Inl (SystemExit 1) | Some line \<Rightarrow> Inr (strip line))"

text \<open>\<open>_confirm_overwrite\<close>: \<open>response.lower() == 'y'\<close>.\<close>

definition confirm_overwrite :: "externals \<Rightarrow> environment \<Rightarrow> error + bool" where
  "confirm_overwrite X env =
     then_do (get_input (overwrite_answer env))
       (\<lambda>response. Inr (lower (unicode_lower X) response = code_points ''y''))"

subsection \<open>Steps of the backup\<close>

definition get_disk_info :: "environment \<Rightarrow> error + dict" where
  "get_disk_info env =
     (case disk_info_cmd env of
        Completed d \<Rightarrow> Inr d
      | NonZeroExit msg \<Rightarrow> Inr []
      | NotFound \<Rightarrow> Inl (raised (disk_info_cmd env))
      | Failed msg \<Rightarrow> Inl (raised (disk_info_cmd env)))"

definition log_metadata :: "environment \<Rightarrow> error + unit" where
  "log_metadata env =
     (case metadata_cmd env of
        Completed out \<Rightarrow> Inr ()
      | NonZeroExit msg \<Rightarrow> Inl (raised (metadata_cmd env))
      | NotFound \<Rightarrow> Inl (raised (metadata_cmd env))
      | Failed msg \<Rightarrow> Inl (raised (metadata_cmd env)))"

text \<open>
  \<open>_generate_tree_listing\<close> opens the tree file for writing and lets \<open>tree\<close> write
  into it; every exception is caught, and the file then stays as opened: empty.
\<close>

definition generate_tree_listing :: "BackupConfig \<Rightarrow> environment \<Rightarrow> files \<Rightarrow> files" where
  "generate_tree_listing cfg env fs =
     fs(tree_path cfg \<mapsto> (case tree_cmd env of Completed out \<Rightarrow> out | _ \<Rightarrow> []))"

definition unmount_disk :: "environment \<Rightarrow> error + bool" where
  "unmount_disk env =
     (case unmount_cmd env of
        Completed out \<Rightarrow> Inr True
      | NonZeroExit msg \<Rightarrow> Inr False
      | NotFound \<Rightarrow> Inl (raised (unmount_cmd env))
      | Failed msg \<Rightarrow> Inl (raised (unmount_cmd env)))"

text \<open>
  \<open>_create_and_verify_iso\<close>: the destination is opened for writing, the loop runs
  (its progress call subtracts from \<open>disk_size\<close>, so a block read with a
  non-numeric \<open>disk_size\<close> raises \<open>TypeError\<close>), a non-zero return code of \<open>dd\<close>
  raises \<open>RuntimeError\<close>, and the result is the elapsed time with the two digests.
\<close>

definition create_and_verify_iso ::
  "externals \<Rightarrow> BackupConfig \<Rightarrow> environment \<Rightarrow> files \<Rightarrow> json \<Rightarrow>
   error + ((rat \<times> string \<times> string) \<times> files)" where
  "create_and_verify_iso X cfg env fs size_of_disk =
     (let st = copy_loop (dd_blocks env) copy_init
      in if blocks_read (dd_blocks env) \<noteq> [] \<and> as_number size_of_disk = None
         then Inl TypeError
         else if dd_returncode env \<noteq> 0
         then Inl (RuntimeError (''dd failed: '' @ dd_stderr env))
         else Inr ((copy_seconds env,
                    hexdigest (md5hex X) (iso_hasher st),
                    hexdigest (md5hex X) (raw_hasher st)),
                   fs(output_path cfg \<mapsto> iso_file st)))"

definition skipped_analysis :: dict where
  "skipped_analysis = [(''skipped'', JBool True), (''reason'', JStr ''dry run'')]"

definition minimal_xml :: "string \<Rightarrow> string" where
  "minimal_xml msg =
     ''<?xml version=\"1.0\" ?>'' @ [CHR 0x0A] @
     ''<isolyzer xmlns=\"http://kb.nl/ns/isolyzer/v1/\">'' @ [CHR 0x0A] @
     ''  <toolInfo>'' @ [CHR 0x0A] @
     ''    <toolName>isolyzer</toolName>'' @ [CHR 0x0A] @
     ''    <toolVersion>unknown</toolVersion>'' @ [CHR 0x0A] @
     ''  </toolInfo>'' @ [CHR 0x0A] @
     ''  <image>'' @ [CHR 0x0A] @
     ''    <statusInfo>'' @ [CHR 0x0A] @
     ''      <success>False</success>'' @ [CHR 0x0A] @
     ''      <error>'' @ msg @ ''</error>'' @ [CHR 0x0A] @
     ''    </statusInfo>'' @ [CHR 0x0A] @
     ''  </image>'' @ [CHR 0x0A] @
     ''</isolyzer>'' @ [CHR 0x0A]"

text \<open>
  \<open>_analyze_iso_structure\<close>: every exception is caught and becomes a dictionary with
  \<open>error\<close> and \<open>error_type\<close>. (The \<open>which isolyzer\<close> of the handler only logs.)
\<close>

definition analyze_iso_structure ::
  "externals \<Rightarrow> BackupConfig \<Rightarrow> environment \<Rightarrow> files \<Rightarrow> dict \<times> files" where
  "analyze_iso_structure X cfg env fs =
     (case isolyzer_cmd env of
        Completed out \<Rightarrow> (parse_isolyzer_xml X out, fs(isolyzer_path cfg \<mapsto> out))
      | NonZeroExit msg \<Rightarrow>
          ([(''error'', JStr msg), (''error_type'', JStr ''execution_failed'')],
           fs(isolyzer_path cfg \<mapsto> minimal_xml msg))
      | NotFound \<Rightarrow>
          ([(''error'', JStr ''isolyzer not installed''), (''error_type'', JStr ''not_found'')],
           fs)
      | Failed msg \<Rightarrow>
          ([(''error'', JStr msg), (''error_type'', JStr ''parsing_failed'')], fs))"

text \<open>
  \<open>_finalize_disk\<close>: only the \<open>diskutil info\<close> of a dry run is called with
  \<open>check=True\<close>.
\<close>

definition finalize_disk :: "BackupConfig \<Rightarrow> environment \<Rightarrow> error + unit" where
  "finalize_disk cfg env =
     (if dry_run cfg
      then (case finalize_cmd env of
              Completed out \<Rightarrow> Inr ()
            | NonZeroExit msg \<Rightarrow> Inl (raised (finalize_cmd env))
            | NotFound \<Rightarrow> Inl (raised (finalize_cmd env))
            | Failed msg \<Rightarrow> Inl (raised (finalize_cmd env)))
      else Inr ())"

definition generate_summary :: "BackupConfig \<Rightarrow> BackupResult \<Rightarrow> error + unit" where
  "generate_summary cfg result =
     (if \<not> dry_run cfg
      then then_do (speed_mb_s result (creation_time result)) (\<lambda>speed. Inr ())
      else Inr ())"

text \<open>
  \<open>create_formatted_log\<close> divides \<open>disk_size\<close> by a number and calls \<open>speed_mb_s\<close>;
  otherwise it writes the log file, whose text is the parameter \<open>log_text\<close>.
\<close>

definition create_formatted_log ::
  "externals \<Rightarrow> BackupConfig \<Rightarrow> environment \<Rightarrow> files \<Rightarrow> BackupResult \<Rightarrow> dict \<Rightarrow>
   error + files" where
  "create_formatted_log X cfg env fs result disk_info =
     then_do (need_number (disk_size result)) (\<lambda>n.
     then_do (speed_mb_s result (creation_time result)) (\<lambda>speed.
       Inr (fs(log_path cfg \<mapsto> log_text X (log_fields cfg) result disk_info env fs))))"

text \<open>
  \<open>_extract_tree_summary\<close>: an exception (the tree file cannot be opened) becomes a
  dictionary with its text.
\<close>

definition extract_tree_summary :: "externals \<Rightarrow> BackupConfig \<Rightarrow> files \<Rightarrow> json" where
  "extract_tree_summary X cfg fs =
     (case fs (tree_path cfg) of
        None \<Rightarrow>
          JObj [(''error'',
                 JStr (''[Errno 2] No such file or directory: '' @ [CHR 0x27] @ tree_path cfg @
                       [CHR 0x27]))]
      | Some listing \<Rightarrow> tree_summary_of X listing)"

definition iso_file_size :: "files \<Rightarrow> BackupResult \<Rightarrow> nat option" where
  "iso_file_size fs result = map_option length (fs (iso_path result))"

text \<open>\<open>_create_manifest\<close>: build the dictionary, then dump it to the manifest file.\<close>

definition create_manifest ::
  "externals \<Rightarrow> BackupConfig \<Rightarrow> environment \<Rightarrow> files \<Rightarrow> BackupResult \<Rightarrow> dict \<Rightarrow> dict \<Rightarrow>
   error + files" where
  "create_manifest X cfg env fs result disk_info iso_analysis =
     then_do
       (manifest_dict cfg (manifest_now env) (fresh_uuid env) (platform env)
          (extract_tree_summary X cfg fs) (iso_file_size fs result)
          result disk_info iso_analysis)
       (\<lambda>manifest. Inr (fs(manifest_path cfg \<mapsto> json_dump X manifest)))"

subsection \<open>\<open>create_backup\<close> and \<open>main\<close>\<close>

definition failed_result :: "BackupConfig \<Rightarrow> json \<Rightarrow> string \<Rightarrow> BackupResult" where
  "failed_result cfg size_of_disk msg =
     \<lparr>success = False, iso_path = output_path cfg, disk_size = size_of_disk,
      md5_iso = None, md5_raw = None, creation_time = 0, verification_time = 0,
      error_message = Some msg\<rparr>"

text \<open>Lines 435 to 443: the placeholders of a dry run, or the copy and the analysis.\<close>

definition image_step ::
  "externals \<Rightarrow> BackupConfig \<Rightarrow> environment \<Rightarrow> files \<Rightarrow> json \<Rightarrow>
   error + ((rat \<times> string \<times> string) \<times> dict \<times> files)" where
  "image_step X cfg env fs size_of_disk =
     (if dry_run cfg
      then Inr ((0, ''dry_run_hash'', ''dry_run_hash''), skipped_analysis, fs)
      else then_do (create_and_verify_iso X cfg env fs size_of_disk) (\<lambda>copied.
             Inr (fst copied,
                  fst (analyze_iso_structure X cfg env (snd copied)),
                  snd (analyze_iso_structure X cfg env (snd copied)))))"

text \<open>The result built at lines 449 to 457 from the time and the two digests.\<close>

definition success_result ::
  "BackupConfig \<Rightarrow> json \<Rightarrow> rat \<times> string \<times> string \<Rightarrow> BackupResult" where
  "success_result cfg size_of_disk hashes =
     \<lparr>success = True, iso_path = output_path cfg, disk_size = size_of_disk,
      md5_iso = Some (fst (snd hashes)), md5_raw = Some (snd (snd hashes)),
      creation_time = fst hashes, verification_time = 0, error_message = None\<rparr>"

text \<open>Lines 445 to 467: finalize, build the result, write the log and the manifest.\<close>

definition finish_backup ::
  "externals \<Rightarrow> BackupConfig \<Rightarrow> environment \<Rightarrow> dict \<Rightarrow> json \<Rightarrow>
   (rat \<times> string \<times> string) \<times> dict \<times> files \<Rightarrow> error + (BackupResult \<times> files)" where
  "finish_backup X cfg env disk_info size_of_disk img =
     then_do (finalize_disk cfg env) (\<lambda>u.
       let result = success_result cfg size_of_disk (fst img)
       in then_do (generate_summary cfg result) (\<lambda>u.
          then_do (create_formatted_log X cfg env (snd (snd img)) result disk_info) (\<lambda>fs4.
          then_do (create_manifest X cfg env fs4 result disk_info (fst (snd img))) (\<lambda>fs5.
            Inr (result, fs5)))))"

definition create_backup ::
  "externals \<Rightarrow> BackupConfig \<Rightarrow> environment \<Rightarrow> files \<Rightarrow> error + (BackupResult \<times> files)" where
  "create_backup X cfg env fs =
     (if euid env \<noteq> 0
      then Inr (failed_result cfg (JInt 0) ''Not running as root'', fs)
      else
        then_do (get_disk_info env) (\<lambda>disk_info.
          if disk_info = []
          then Inr (failed_result cfg (JInt 0)
                      (''Could not get disk info for '' @ disk_id cfg), fs)
          else
            then_do (log_metadata env) (\<lambda>u.
            then_do (if fs (output_path cfg) \<noteq> None then confirm_overwrite X env else Inr True)
              (\<lambda>proceed.
                if \<not> proceed
                then Inr (failed_result cfg (dict_get disk_info ''TotalSize'' (JInt 0))
                            ''Aborted to avoid overwrite'', fs)
                else
                  then_do (if dry_run cfg then Inr True else unmount_disk env) (\<lambda>unmounted.
                  then_do (image_step X cfg env (generate_tree_listing cfg env fs)
                             (dict_get disk_info ''TotalSize'' (JInt 0)))
                    (finish_backup X cfg env disk_info
                       (dict_get disk_info ''TotalSize'' (JInt 0))))))))"

text \<open>
  The exit status of the process: the one \<open>main\<close> chooses from the result, the
  argument of a \<open>sys.exit\<close> on the way, or 1 when an exception reaches the top.
\<close>

definition run_exit :: "error + (BackupResult \<times> files) \<Rightarrow> int" where
  "run_exit r =
     (case r of
        Inr done \<Rightarrow> main_exit (fst done)
      | Inl (SystemExit n) \<Rightarrow> n
      | Inl e \<Rightarrow> 1)"

section \<open>Vocabulary of the properties\<close>

text \<open>
  Two manifests are compared up to some fields by replacing these fields with
  \<open>null\<close> in both: the three fields of the run's identity (\<open>run_id\<close>, which starts
  with the timestamp, \<open>uuid\<close> and \<open>created\<close>), the field \<open>created\<close> alone, and
  the two fields that say whether verification was performed.
\<close>

definition blank_run_identity :: "json \<Rightarrow> json" where
  "blank_run_identity m =
     set_path [''backup_metadata'', ''run_id''] JNull
       (set_path [''backup_metadata'', ''uuid''] JNull
          (set_path [''backup_metadata'', ''created''] JNull m))"

definition blank_created :: "json \<Rightarrow> json" where
  "blank_created m = set_path [''backup_metadata'', ''created''] JNull m"

definition blank_verification_performed :: "json \<Rightarrow> json" where
  "blank_verification_performed m =
     set_path [''backup_status'', ''verification_performed''] JNull
       (set_path [''operations_performed'', ''verification'', ''performed''] JNull m)"

text \<open>The outcome of a run with the manifest file left out of the file system.\<close>

definition forget_manifest ::
  "BackupConfig \<Rightarrow> error + (BackupResult \<times> files) \<Rightarrow> error + (BackupResult \<times> files)" where
  "forget_manifest cfg r = map_sum id (\<lambda>done. (fst done, (snd done)(manifest_path cfg := None))) r"

text \<open>
  The run passes the checks that come before the copy: it runs as root, the disk
  information \<open>d\<close> is there and not empty, its sizes are numbers, the metadata call
  completes, and the destination does not exist or the operator answers the prompt
  with a line that strips and lower-cases to \<open>y\<close>.
\<close>

definition answered_yes :: "externals \<Rightarrow> environment \<Rightarrow> bool" where
  "answered_yes X env =
     (case overwrite_answer env of
        None \<Rightarrow> False
      | Some line \<Rightarrow> lower (unicode_lower X) (strip line) = code_points ''y'')"

definition is_completed :: "'a outcome \<Rightarrow> bool" where
  "is_completed oc = (case oc of Completed x \<Rightarrow> True | _ \<Rightarrow> False)"

definition checks_pass ::
  "externals \<Rightarrow> BackupConfig \<Rightarrow> environment \<Rightarrow> files \<Rightarrow> dict \<Rightarrow> bool" where
  "checks_pass X cfg env fs d =
     (euid env = 0 \<and> disk_info_cmd env = Completed d \<and> d \<noteq> [] \<and>
      as_number (dict_get d ''TotalSize'' (JInt 0)) \<noteq> None \<and>
      as_number (dict_get d ''VolumeSize'' (dict_get d ''TotalSize'' (JInt 0))) \<noteq> None \<and>
      is_completed (metadata_cmd env) \<and>
      (fs (output_path cfg) = None \<or> answered_yes X env))"

text \<open>The file system once \<open>create_formatted_log\<close> has written the log of a result.\<close>

definition logged ::
  "externals \<Rightarrow> BackupConfig \<Rightarrow> environment \<Rightarrow> dict \<Rightarrow> BackupResult \<Rightarrow> files \<Rightarrow> files" where
  "logged X cfg env d r fs = fs(log_path cfg \<mapsto> log_text X (log_fields cfg) r d env fs)"

text \<open>
  The record that \<open>_analyze_iso_structure\<close> returns when the executable is not
  found.
\<close>

definition not_found_analysis :: dict where
  "not_found_analysis =
     [(''error'', JStr ''isolyzer not installed''), (''error_type'', JStr ''not_found'')]"

section \<open>Example inputs\<close>

definition example_config :: BackupConfig where
  "example_config =
     \<lparr>disk_id = ''disk2'', volume_name = ''DISC'', filename = ''disc'', operator = ''op'',
      output_dir = ''/out'', dry_run = False, no_verification = False\<rparr>"

definition example_time :: datetime where
  "example_time =
     \<lparr>dt_year = 2024, dt_month = 1, dt_day = 2, dt_hour = 3, dt_minute = 4, dt_second = 5\<rparr>"

definition example_platform :: platform_info where
  "example_platform =
     \<lparr>platform_system = ''Darwin'', platform_release = ''23.0'', platform_version = ''v'',
      platform_machine = ''arm64'', platform_processor = ''arm'', platform_node = ''host'',
      platform_python_version = ''3.11''\<rparr>"

definition example_disk_info :: dict where
  "example_disk_info = [(''TotalSize'', JInt 3)]"

definition example_result :: BackupResult where
  "example_result =
     \<lparr>success = True, iso_path = ''/out/disc.iso'', disk_size = JInt 3,
      md5_iso = Some ''aa'', md5_raw = Some ''aa'', creation_time = 2,
      verification_time = 0, error_message = None\<rparr>"

definition example_externals :: externals where
  "example_externals =
     \<lparr>md5hex = (\<lambda>bytes. ''md5:'' @ bytes),
      json_dump = (\<lambda>m. ''manifest''),
      unicode_lower = (\<lambda>s. s),
      parse_isolyzer_xml = (\<lambda>out. []),
      tree_summary_of = (\<lambda>listing. JObj []),
      log_text = (\<lambda>fields result disk_info env fs. ''log'')\<rparr>"

text \<open>
  A run as root on a three-byte disc that \<open>dd\<close> delivers in two blocks, with
  \<open>isolyzer\<close> not installed; the operator types \<open>n\<close> at the prompt.
\<close>

definition example_environment :: environment where
  "example_environment =
     \<lparr>euid = 0, disk_info_cmd = Completed example_disk_info,
      metadata_cmd = Completed ''info'', overwrite_answer = Some (code_points ''n''),
      tree_cmd = Completed ''tree'', unmount_cmd = Completed [],
      dd_blocks = [''ab'', ''c''], dd_returncode = 0, dd_stderr = [],
      copy_seconds = 2, isolyzer_cmd = NotFound, finalize_cmd = Completed ''info'',
      run_start = example_time, manifest_now = example_time, fresh_uuid = ''u1'',
      platform = example_platform\<rparr>"

definition no_files :: files where
  "no_files = (\<lambda>p. None)"

definition old_iso :: files where
  "old_iso = no_files(output_path example_config \<mapsto> ''old'')"


section \<open>Properties of the copy loop\<close>

lemma copy_loop_hashers:
  "iso_hasher st = raw_hasher st \<Longrightarrow>
   iso_hasher (copy_loop blocks st) = raw_hasher (copy_loop blocks st)"
  by (induction blocks arbitrary: st) (simp_all add: copy_step_def)

lemma copy_loop_fed:
  "iso_hasher (copy_loop blocks st) = iso_hasher st @ concat (blocks_read blocks)"
  by (induction blocks arbitrary: st)
     (simp_all add: copy_step_def md5_update_def blocks_read_def)

lemma copy_loop_file:
  "iso_file (copy_loop blocks st) = iso_file st @ concat (blocks_read blocks)"
  by (induction blocks arbitrary: st) (simp_all add: copy_step_def blocks_read_def)

lemma copy_loop_count:
  "bytes_written (copy_loop blocks st) =
   bytes_written st + (\<Sum>c\<leftarrow>blocks_read blocks. int (length c))"
  by (induction blocks arbitrary: st) (simp_all add: copy_step_def blocks_read_def)

text \<open>
  Claim C1. For every sequence of blocks the source delivers, the two hashers have
  been fed the same bytes when the loop ends (the bytes of the blocks read, in
  order), so the two hexadecimal digests are equal, whatever the digest function;
  and whenever \<open>_create_and_verify_iso\<close> returns, the two digests it returns are
  equal.
\<close>

theorem C1_digests_equal:
  "iso_hasher (copy_loop blocks copy_init) = concat (blocks_read blocks) \<and>
   raw_hasher (copy_loop blocks copy_init) = concat (blocks_read blocks) \<and>
   hexdigest digest (iso_hasher (copy_loop blocks copy_init)) =
   hexdigest digest (raw_hasher (copy_loop blocks copy_init)) \<and>
   (case create_and_verify_iso X cfg env fs sz of
      Inl e \<Rightarrow> True
    | Inr copied \<Rightarrow> fst (snd (fst copied)) = snd (snd (fst copied)))"
proof -
  have same: "iso_hasher (copy_loop bs copy_init) = raw_hasher (copy_loop bs copy_init)"
    for bs
    by (rule copy_loop_hashers) (simp add: copy_init_def)
  have fed: "iso_hasher (copy_loop blocks copy_init) = concat (blocks_read blocks)"
    by (simp add: copy_loop_fed copy_init_def md5_new_def)
  have returned: "(case create_and_verify_iso X cfg env fs sz of
      Inl e \<Rightarrow> True
    | Inr copied \<Rightarrow> fst (snd (fst copied)) = snd (snd (fst copied)))"
    by (simp add: create_and_verify_iso_def Let_def same)
  from same [of blocks] fed returned show ?thesis by simp
qed

text \<open>
  Claim C4. At loop exit \<open>bytes_written\<close> is the sum of the lengths of the blocks
  read, which is also the number of bytes written to the file; and when the blocks
  the source delivers add up to the declared total size, \<open>bytes_written\<close> is that
  size.
\<close>

theorem C4_bytes_written:
  "bytes_written (copy_loop blocks copy_init) = (\<Sum>c\<leftarrow>blocks_read blocks. int (length c)) \<and>
   bytes_written (copy_loop blocks copy_init) = int (length (iso_file (copy_loop blocks copy_init))) \<and>
   ((\<Sum>c\<leftarrow>blocks_read blocks. int (length c)) = declared \<longrightarrow>
      bytes_written (copy_loop blocks copy_init) = declared)"
proof -
  have count: "bytes_written (copy_loop blocks copy_init) = (\<Sum>c\<leftarrow>blocks_read blocks. int (length c))"
    by (simp add: copy_loop_count copy_init_def)
  have len: "int (length (concat bs)) = (\<Sum>c\<leftarrow>bs. int (length c))" for bs :: "string list"
    by (induction bs) simp_all
  have wr: "iso_file (copy_loop blocks copy_init) = concat (blocks_read blocks)"
    by (simp add: copy_loop_file copy_init_def)
  from count wr len show ?thesis by simp
qed

theorem C4_bytes_written_witness:
  "(\<Sum>c\<leftarrow>blocks_read [''ab'', ''c'']. int (length c)) = 3 \<and>
   bytes_written (copy_loop [''ab'', ''c''] copy_init) = 3 \<and>
   iso_file (copy_loop [''ab'', ''c''] copy_init) = ''abc''"
  using C4_bytes_written [of "[''ab'', ''c'']" 3]
  by (simp add: blocks_read_def copy_init_def copy_step_def)

text \<open>
  Claim C2. The exit status is 0 for a successful result whose checksum comparison
  is not a definite mismatch, 2 for a successful result whose two checksums
  definitely differ, and 1 for an unsuccessful result; a definite mismatch needs both
  digests present, non-empty and different.
\<close>

theorem C2_exit_status:
  "(success r \<and> checksum_match r \<noteq> Some False \<longrightarrow> main_exit r = 0) \<and>
   (success r \<and> checksum_match r = Some False \<longrightarrow> main_exit r = 2) \<and>
   (\<not> success r \<longrightarrow> main_exit r = 1) \<and>
   (checksum_match r = Some False \<longleftrightarrow>
      (\<exists>a b. md5_iso r = Some a \<and> md5_raw r = Some b \<and> a \<noteq> [] \<and> b \<noteq> [] \<and> a \<noteq> b))"
  by (auto simp: main_exit_def checksum_match_def truthy_str_def split: option.splits)

theorem C2_exit_status_witness:
  "main_exit \<lparr>success = True, iso_path = ''/b/d.iso'', disk_size = JInt 3,
      md5_iso = Some ''aa'', md5_raw = Some ''aa'', creation_time = 1,
      verification_time = 0, error_message = None\<rparr> = 0 \<and>
   main_exit \<lparr>success = True, iso_path = ''/b/d.iso'', disk_size = JInt 3,
      md5_iso = Some ''aa'', md5_raw = Some ''ab'', creation_time = 1,
      verification_time = 0, error_message = None\<rparr> = 2 \<and>
   main_exit \<lparr>success = False, iso_path = ''/b/d.iso'', disk_size = JInt 0,
      md5_iso = None, md5_raw = None, creation_time = 0,
      verification_time = 0, error_message = Some ''Not running as root''\<rparr> = 1"
  using
    C2_exit_status [of "\<lparr>success = True, iso_path = ''/b/d.iso'', disk_size = JInt 3,
      md5_iso = Some ''aa'', md5_raw = Some ''aa'', creation_time = 1,
      verification_time = 0, error_message = None\<rparr>"]
    C2_exit_status [of "\<lparr>success = True, iso_path = ''/b/d.iso'', disk_size = JInt 3,
      md5_iso = Some ''aa'', md5_raw = Some ''ab'', creation_time = 1,
      verification_time = 0, error_message = None\<rparr>"]
    C2_exit_status [of "\<lparr>success = False, iso_path = ''/b/d.iso'', disk_size = JInt 0,
      md5_iso = None, md5_raw = None, creation_time = 0,
      verification_time = 0, error_message = Some ''Not running as root''\<rparr>"]
  by (simp add: checksum_match_def truthy_str_def)

subsection \<open>Duration formatting at the boundary inputs\<close>

lemma duration_parts_59_99:
  "duration_minutes (5999 / 100) = 0 \<and> duration_remaining (5999 / 100) = 5999 / 100"
  by (simp add: duration_minutes_def duration_remaining_def py_int_def py_mod_def py_round_def
      round_half_even_def floor_eq_iff)

lemma duration_parts_60: "duration_minutes 60 = 1 \<and> duration_remaining 60 = 0"
  by (simp add: duration_minutes_def duration_remaining_def py_int_def py_mod_def py_round_def
      round_half_even_def)

lemma duration_parts_3661: "duration_minutes 3661 = 61 \<and> duration_remaining 3661 = 1"
  by (simp add: duration_minutes_def duration_remaining_def py_int_def py_mod_def py_round_def
      round_half_even_def floor_eq_iff)

lemma format_fixed_examples:
  "format_fixed 2 (5999 / 100) = ''59.99'' \<and> format_fixed 2 0 = ''0.00'' \<and>
   format_fixed 2 1 = ''1.00''"
  by (simp add: format_fixed_def round_half_even_def str_nat.simps digit_char_def zero_pad_def)

lemma format_duration_59_99: "format_duration (5999 / 100) = ''59.99 seconds''"
  by (simp add: format_duration_def duration_parts_59_99 format_fixed_examples)

lemma format_duration_60: "format_duration 60 = ''1 minutes, 0.00 seconds''"
  by (simp add: format_duration_def duration_parts_60 format_fixed_examples str_int_def
      str_nat.simps digit_char_def)

lemma format_duration_3661: "format_duration 3661 = ''61 minutes, 1.00 seconds''"
  by (simp add: format_duration_def duration_parts_3661 format_fixed_examples str_int_def
      str_nat.simps digit_char_def)

text \<open>
  Claim C8. The boundary cases of the duration format: 0 seconds gives "0 seconds";
  59.99 seconds gives 0 minutes and 59.99 seconds; 60 seconds gives 1 minute and 0
  seconds; 3661 seconds gives 61 minutes and 1 second, with no roll-over into hours.
\<close>

theorem C8_format_duration_boundaries:
  "format_duration 0 = ''0 seconds'' \<and>
   duration_minutes (5999 / 100) = 0 \<and> duration_remaining (5999 / 100) = 5999 / 100 \<and>
   format_duration (5999 / 100) = ''59.99 seconds'' \<and>
   duration_minutes 60 = 1 \<and> duration_remaining 60 = 0 \<and>
   format_duration 60 = ''1 minutes, 0.00 seconds'' \<and>
   duration_minutes 3661 = 61 \<and> duration_remaining 3661 = 1 \<and>
   format_duration 3661 = ''61 minutes, 1.00 seconds''"
proof -
  have zero: "format_duration 0 = ''0 seconds''"
    by (simp add: format_duration_def)
  from zero duration_parts_59_99 duration_parts_60 duration_parts_3661
    format_duration_59_99 format_duration_60 format_duration_3661
  show ?thesis by simp
qed

text \<open>
  Claim C5. The throughput and the remaining-time estimate that the progress display
  computes are the two formulas of the specification, and when the bytes done, the
  total and the elapsed time are not negative, neither are the elapsed seconds, the
  remaining seconds and the throughput that are displayed.
\<close>

theorem C5_progress:
  "p_speed (display_progress current total_size t0 now) =
     spec_throughput current (now - t0) \<and>
   p_eta (display_progress current total_size t0 now) =
     spec_remaining total_size current (spec_throughput current (now - t0)) \<and>
   (0 \<le> current \<and> 0 \<le> total_size \<and> 0 \<le> now - t0 \<longrightarrow>
      0 \<le> elapsed_shown (display_progress current total_size t0 now) \<and>
      0 \<le> remaining_shown (display_progress current total_size t0 now) \<and>
      0 \<le> p_eta (display_progress current total_size t0 now) \<and>
      0 \<le> p_speed (display_progress current total_size t0 now) \<and>
      0 \<le> p_speed_mb (display_progress current total_size t0 now))"
proof -
  let ?e = "now - t0"
  let ?s = "if ?e > 0 then of_int current / ?e else (0::rat)"
  let ?r = "max 0 (total_size - of_int current)"
  let ?eta = "if ?s > 0 then ?r / ?s else (0::rat)"
  have speed_nonneg: "0 \<le> ?s" if "0 \<le> current"
    using that by simp
  have eta_nonneg: "0 \<le> ?eta"
    by simp
  have "0 \<le> py_int ?e" if "0 \<le> ?e"
    using that by (simp add: py_int_def)
  moreover have "0 \<le> py_int ?eta"
    using eta_nonneg unfolding py_int_def by (simp only: if_True zero_le_floor)
  ultimately show ?thesis
    using speed_nonneg eta_nonneg
    by (simp add: display_progress_def spec_throughput_def spec_remaining_def Let_def)
qed

theorem C5_progress_witness:
  "(0::int) \<le> 8 \<and> (0::rat) \<le> 20 \<and> (0::rat) \<le> 2 - 0 \<and>
   p_speed (display_progress 8 20 0 2) = 4 \<and>
   p_eta (display_progress 8 20 0 2) = 3 \<and>
   elapsed_shown (display_progress 8 20 0 2) = 2 \<and>
   remaining_shown (display_progress 8 20 0 2) = 3"
  using C5_progress [of 8 20 0 2]
  by (simp add: spec_throughput_def spec_remaining_def display_progress_def py_int_def)

section \<open>Properties of the manifest and of whole runs\<close>

lemmas path_defs = output_path_def log_path_def manifest_path_def tree_path_def
  isolyzer_path_def path_join_def

lemma manifest_path_distinct:
  "manifest_path cfg \<noteq> output_path cfg" "manifest_path cfg \<noteq> tree_path cfg"
  "manifest_path cfg \<noteq> log_path cfg" "manifest_path cfg \<noteq> isolyzer_path cfg"
  by (simp_all add: path_defs)

lemma output_path_distinct:
  "output_path cfg \<noteq> tree_path cfg" "output_path cfg \<noteq> log_path cfg"
  "output_path cfg \<noteq> manifest_path cfg" "output_path cfg \<noteq> isolyzer_path cfg"
  by (simp_all add: path_defs)

lemma then_do_Inr [simp]: "then_do (Inr x) f = f x"
  by (simp add: then_do_def)

lemma then_do_Inl [simp]: "then_do (Inl e) f = Inl e"
  by (simp add: then_do_def)

lemma then_do_eq_Inr:
  "then_do m f = Inr y \<longleftrightarrow> (\<exists>x. m = Inr x \<and> f x = Inr y)"
  by (cases m) simp_all

subsection \<open>The manifest dictionary\<close>

lemma manifest_dict_Inr:
  assumes "manifest_dict cfg now uuid pf ts sz r d ia = Inr m"
  obtains volume timing structural where
    "volume_information cfg r d = Inr volume"
    "timing_performance r = Inr timing"
    "structural_analysis ia = Inr structural"
    "m = JObj [
         (''backup_metadata'', backup_metadata cfg now uuid),
         (''backup_status'', backup_status cfg r sz),
         (''source_disc'', source_disc cfg d),
         (''volume_information'', volume),
         (''output_files'', output_files cfg r sz),
         (''operations_performed'', operations_performed cfg r ts),
         (''timing_performance'', timing),
         (''integrity_verification'', integrity_verification r),
         (''structural_analysis'', structural),
         (''system_environment'', system_environment pf),
         (''technical_details'', technical_details cfg r d),
         (''quality_assurance'', quality_assurance r ia)]"
  using assms unfolding manifest_dict_def then_do_eq_Inr by blast

lemma volume_information_ok:
  assumes "as_number (disk_size r) \<noteq> None"
    and "as_number (dict_get d ''VolumeSize'' (disk_size r)) \<noteq> None"
  shows "\<exists>v. volume_information cfg r d = Inr v"
  using assms by (auto simp: volume_information_def format_bytes_def need_number_def)

lemma timing_performance_ok:
  assumes "as_number (disk_size r) \<noteq> None"
  shows "\<exists>v. timing_performance r = Inr v"
  using assms by (auto simp: timing_performance_def speed_mb_s_def need_number_def)

lemma manifest_dict_ok:
  assumes "as_number (disk_size r) \<noteq> None"
    and "as_number (dict_get d ''VolumeSize'' (disk_size r)) \<noteq> None"
    and "structural_analysis ia = Inr s"
  shows "\<exists>m. manifest_dict cfg now uuid pf ts sz r d ia = Inr m"
proof -
  obtain v where v: "volume_information cfg r d = Inr v"
    using volume_information_ok [OF assms(1,2)] by blast
  obtain t where t: "timing_performance r = Inr t"
    using timing_performance_ok [OF assms(1)] by blast
  show ?thesis by (simp add: manifest_dict_def v t assms(3))
qed

lemma blank_metadata:
  "blank_run_identity (JObj ((''backup_metadata'', backup_metadata cfg now uuid) # rest)) =
   blank_run_identity (JObj ((''backup_metadata'', backup_metadata cfg now' uuid') # rest))"
  by (simp add: blank_run_identity_def backup_metadata_def)

lemma manifest_reads_unchanged:
  "extract_tree_summary X cfg (fs(manifest_path cfg \<mapsto> doc)) = extract_tree_summary X cfg fs"
  "iso_path r = output_path cfg \<Longrightarrow>
   iso_file_size (fs(manifest_path cfg \<mapsto> doc)) r = iso_file_size fs r"
  using manifest_path_distinct(1,2) [of cfg]
  by (simp_all add: extract_tree_summary_def iso_file_size_def)

text \<open>
  Claim C3, as amended. For a fixed configuration, result, disk information and
  analysis (and the same platform, tree summary and ISO size, which the builder
  reads from the system and the files), two invocations of the manifest builder, at
  any two times and with any two fresh UUIDs, raise the same exception or build
  manifests that are equal except for \<open>run_id\<close>, \<open>uuid\<close> and \<open>created\<close> in
  \<open>backup_metadata\<close>. This also holds when the second invocation reads the files
  that the first one left, with its manifest written, for a result whose ISO path
  is the output path.
\<close>

theorem C3_manifest_equal_up_to_identity:
  "map_sum id blank_run_identity (manifest_dict cfg now1 uuid1 pf ts sz r d ia) =
   map_sum id blank_run_identity (manifest_dict cfg now2 uuid2 pf ts sz r d ia) \<and>
   (iso_path r = output_path cfg \<longrightarrow>
    map_sum id blank_run_identity
      (manifest_dict cfg now1 uuid1 pf
         (extract_tree_summary X cfg fs) (iso_file_size fs r) r d ia) =
    map_sum id blank_run_identity
      (manifest_dict cfg now2 uuid2 pf
         (extract_tree_summary X cfg (fs(manifest_path cfg \<mapsto> doc)))
         (iso_file_size (fs(manifest_path cfg \<mapsto> doc)) r) r d ia))"
proof -
  have same: "map_sum id blank_run_identity (manifest_dict cfg n1 u1 pf t s r d ia) =
      map_sum id blank_run_identity (manifest_dict cfg n2 u2 pf t s r d ia)"
    for n1 n2 u1 u2 t s
    unfolding manifest_dict_def then_do_def
    by (simp split: sum.splits add: blank_metadata)
  show ?thesis
    using same by (simp add: manifest_reads_unchanged)
qed

theorem C3_manifest_equal_up_to_identity_witness:
  "iso_path example_result = output_path example_config \<and>
   map_sum id blank_run_identity
     (manifest_dict example_config example_time ''5a0e7b1c-3d2f-4c6a-9b8e-1f2a3b4c5d6e''
        example_platform (extract_tree_summary example_externals example_config no_files)
        (iso_file_size no_files example_result) example_result example_disk_info
        skipped_analysis) =
   map_sum id blank_run_identity
     (manifest_dict example_config example_time ''0c9d8e7f-6a5b-4c3d-8e2f-a1b2c3d4e5f6''
        example_platform
        (extract_tree_summary example_externals example_config
           (no_files(manifest_path example_config \<mapsto> ''first'')))
        (iso_file_size (no_files(manifest_path example_config \<mapsto> ''first'')) example_result)
        example_result example_disk_info skipped_analysis)"
proof -
  have p: "iso_path example_result = output_path example_config"
    by (simp add: example_result_def example_config_def output_path_def path_join_def)
  from C3_manifest_equal_up_to_identity [of example_config example_time
      "''5a0e7b1c-3d2f-4c6a-9b8e-1f2a3b4c5d6e''" example_platform _ _ example_result
      example_disk_info skipped_analysis example_time
      "''0c9d8e7f-6a5b-4c3d-8e2f-a1b2c3d4e5f6''" example_externals no_files "''first''"] p
  show ?thesis by blast
qed

lemma manifest_uuid:
  assumes "manifest_dict cfg now uuid pf ts sz r d ia = Inr m"
  shows "get_path [''backup_metadata'', ''uuid''] (blank_created m) = Some (JStr uuid)"
  using assms
  by (elim manifest_dict_Inr) (simp add: blank_created_def backup_metadata_def)

lemma skipped_structural: "\<exists>s. structural_analysis skipped_analysis = Inr s"
  by (simp add: structural_analysis_def skipped_analysis_def dict_get_def obj_get_def
      need_number_def extract_filesystem_info_def iter_items_def)

text \<open>
  Claim C3 as stated fails: two invocations at the same time of the clock, on the
  same inputs, build manifests that differ in \<open>uuid\<close>, a field other than the
  timestamp \<open>created\<close>.
\<close>

theorem C3_uuid_counterexample:
  "\<not> (map_sum id blank_created
         (manifest_dict example_config example_time ''5a0e7b1c-3d2f-4c6a-9b8e-1f2a3b4c5d6e'' example_platform (JObj []) (Some 3)
            example_result example_disk_info skipped_analysis) =
       map_sum id blank_created
         (manifest_dict example_config example_time ''0c9d8e7f-6a5b-4c3d-8e2f-a1b2c3d4e5f6'' example_platform (JObj []) (Some 3)
            example_result example_disk_info skipped_analysis))"
proof
  let ?m = "\<lambda>u. manifest_dict example_config example_time u example_platform (JObj []) (Some 3)
            example_result example_disk_info skipped_analysis"
  assume eq: "map_sum id blank_created (?m ''5a0e7b1c-3d2f-4c6a-9b8e-1f2a3b4c5d6e'') = map_sum id blank_created (?m ''0c9d8e7f-6a5b-4c3d-8e2f-a1b2c3d4e5f6'')"
  obtain s where s: "structural_analysis skipped_analysis = Inr s"
    using skipped_structural by blast
  have num: "as_number (disk_size example_result) \<noteq> None"
    "as_number (dict_get example_disk_info ''VolumeSize'' (disk_size example_result)) \<noteq> None"
    by (simp_all add: example_result_def example_disk_info_def dict_get_def)
  obtain m1 where m1: "?m ''5a0e7b1c-3d2f-4c6a-9b8e-1f2a3b4c5d6e'' = Inr m1"
    using manifest_dict_ok [OF num s] by blast
  obtain m2 where m2: "?m ''0c9d8e7f-6a5b-4c3d-8e2f-a1b2c3d4e5f6'' = Inr m2"
    using manifest_dict_ok [OF num s] by blast
  from eq m1 m2 have "blank_created m1 = blank_created m2" by simp
  moreover have "get_path [''backup_metadata'', ''uuid''] (blank_created m1) = Some (JStr ''5a0e7b1c-3d2f-4c6a-9b8e-1f2a3b4c5d6e'')"
    by (rule manifest_uuid [OF m1])
  moreover have "get_path [''backup_metadata'', ''uuid''] (blank_created m2) = Some (JStr ''0c9d8e7f-6a5b-4c3d-8e2f-a1b2c3d4e5f6'')"
    by (rule manifest_uuid [OF m2])
  ultimately show False by simp
qed


subsection \<open>The overwrite prompt\<close>

lemma is_completed_iff: "is_completed oc \<longleftrightarrow> (\<exists>x. oc = Completed x)"
  by (cases oc) (simp_all add: is_completed_def)

text \<open>
  Claim C7, as amended. When the run is root, has its disk information, the
  destination exists and the operator answers the prompt with a line that, stripped
  of white space at both ends and lower-cased, is not \<open>y\<close>, the run returns the failure "Aborted to avoid
  overwrite" with the file system as it found it, and the exit status is 1.
\<close>

theorem C7_overwrite_declined:
  assumes "euid env = 0" and "disk_info_cmd env = Completed d" and "d \<noteq> []"
    and "is_completed (metadata_cmd env)"
    and "fs (output_path cfg) \<noteq> None"
    and "overwrite_answer env = Some line"
    and "lower (unicode_lower X) (strip line) \<noteq> code_points ''y''"
  shows "create_backup X cfg env fs =
           Inr (failed_result cfg (dict_get d ''TotalSize'' (JInt 0))
                  ''Aborted to avoid overwrite'', fs) \<and>
         run_exit (create_backup X cfg env fs) = 1"
proof -
  obtain out where out: "metadata_cmd env = Completed out"
    using assms(4) by (auto simp: is_completed_iff)
  have run: "create_backup X cfg env fs =
           Inr (failed_result cfg (dict_get d ''TotalSize'' (JInt 0))
                  ''Aborted to avoid overwrite'', fs)"
    using assms out
    by (simp add: create_backup_def get_disk_info_def log_metadata_def confirm_overwrite_def
        get_input_def)
  then show ?thesis
    by (simp add: run_exit_def main_exit_def failed_result_def)
qed

lemma example_environment_simps:
  "euid example_environment = 0"
  "disk_info_cmd example_environment = Completed example_disk_info"
  "metadata_cmd example_environment = Completed ''info''"
  "overwrite_answer example_environment = Some (code_points ''n'')"
  "tree_cmd example_environment = Completed ''tree''"
  "unmount_cmd example_environment = Completed []"
  "dd_blocks example_environment = [''ab'', ''c'']"
  "dd_returncode example_environment = 0"
  "copy_seconds example_environment = 2"
  "isolyzer_cmd example_environment = NotFound"
  "finalize_cmd example_environment = Completed ''info''"
  "manifest_now example_environment = example_time"
  "fresh_uuid example_environment = ''u1''"
  "platform example_environment = example_platform"
  by (simp_all add: example_environment_def)

lemma old_iso_exists: "old_iso (output_path example_config) = Some ''old''"
  by (simp add: old_iso_def)

lemmas prompt_defs = code_points_def strip_def is_space_def lower_def ascii_lower_def

lemma line_n_declines:
  "lower (unicode_lower example_externals) (strip (code_points ''n'')) \<noteq> code_points ''y''"
  by (simp add: prompt_defs)

text \<open>
  A no-break space before the \<open>y\<close> and an em space after it are stripped, so this
  line confirms, whatever the case mapping outside ASCII.
\<close>

lemma padded_y_accepts: "lower full_lower (strip [0xA0, 0x79, 0x2003]) = code_points ''y''"
  by (simp add: prompt_defs)

lemma example_total_size: "dict_get example_disk_info ''TotalSize'' (JInt 0) = JInt 3"
  by (simp add: example_disk_info_def dict_get_def)

theorem C7_overwrite_declined_witness:
  "old_iso (output_path example_config) \<noteq> None \<and>
   overwrite_answer example_environment = Some (code_points ''n'') \<and>
   lower (unicode_lower example_externals) (strip (code_points ''n'')) \<noteq> code_points ''y'' \<and>
   create_backup example_externals example_config example_environment old_iso =
     Inr (failed_result example_config (JInt 3) ''Aborted to avoid overwrite'', old_iso) \<and>
   run_exit (create_backup example_externals example_config example_environment old_iso) = 1"
proof -
  have ex: "old_iso (output_path example_config) \<noteq> None"
    by (simp add: old_iso_exists)
  have d: "example_disk_info \<noteq> []"
    by (simp add: example_disk_info_def)
  have m: "is_completed (metadata_cmd example_environment)"
    by (simp add: example_environment_simps is_completed_def)
  note run = C7_overwrite_declined [where env = example_environment and d = example_disk_info
      and fs = old_iso and cfg = example_config and line = "code_points ''n''" and X = example_externals,
      OF example_environment_simps(1) example_environment_simps(2) d m ex
      example_environment_simps(4) line_n_declines]
  from run [unfolded example_total_size] ex line_n_declines example_environment_simps(4)
  show ?thesis by blast
qed

subsection \<open>Runs that pass the checks\<close>

lemma create_backup_proceeds:
  assumes "checks_pass X cfg env fs d"
  shows "create_backup X cfg env fs =
     then_do (if dry_run cfg then Inr True else unmount_disk env) (\<lambda>unmounted.
       then_do (image_step X cfg env (generate_tree_listing cfg env fs)
                  (dict_get d ''TotalSize'' (JInt 0)))
         (finish_backup X cfg env d (dict_get d ''TotalSize'' (JInt 0))))"
proof -
  from assms have e: "euid env = 0" and d: "disk_info_cmd env = Completed d" "d \<noteq> []"
    and m: "is_completed (metadata_cmd env)"
    and o: "fs (output_path cfg) = None \<or> answered_yes X env"
    by (simp_all add: checks_pass_def)
  obtain out where out: "metadata_cmd env = Completed out"
    using m by (auto simp: is_completed_iff)
  show ?thesis
  proof (cases "fs (output_path cfg)")
    case None
    then show ?thesis
      unfolding create_backup_def using e d out
      by (simp add: get_disk_info_def log_metadata_def)
  next
    case (Some old)
    with o have "answered_yes X env" by simp
    then have "confirm_overwrite X env = Inr True"
      by (auto simp: answered_yes_def confirm_overwrite_def get_input_def split: option.splits)
    then show ?thesis
      unfolding create_backup_def using e d out Some
      by (simp add: get_disk_info_def log_metadata_def)
  qed
qed

lemma speed_mb_s_ok:
  assumes "as_number (disk_size r) \<noteq> None"
  shows "\<exists>sp. speed_mb_s r t = Inr sp"
  using assms by (auto simp: speed_mb_s_def need_number_def)

lemma success_result_simps [simp]:
  "success (success_result cfg sz hashes)"
  "iso_path (success_result cfg sz hashes) = output_path cfg"
  "disk_size (success_result cfg sz hashes) = sz"
  "md5_iso (success_result cfg sz (t, h1, h2)) = Some h1"
  "md5_raw (success_result cfg sz (t, h1, h2)) = Some h2"
  "creation_time (success_result cfg sz (t, h1, h2)) = t"
  "error_message (success_result cfg sz hashes) = None"
  by (simp_all add: success_result_def)

text \<open>
  With numeric sizes, an analysis the manifest accepts and a finalization that does
  not raise, the last part of the run writes the log, then the manifest, and
  returns the successful result.
\<close>

lemma finish_backup_ok:
  assumes "as_number sz \<noteq> None"
    and "as_number (dict_get d ''VolumeSize'' sz) \<noteq> None"
    and "structural_analysis ia = Inr s"
    and "dry_run cfg \<Longrightarrow> is_completed (finalize_cmd env)"
  shows "\<exists>m.
      manifest_dict cfg (manifest_now env) (fresh_uuid env) (platform env)
        (extract_tree_summary X cfg (logged X cfg env d (success_result cfg sz hashes) fs3))
        (iso_file_size (logged X cfg env d (success_result cfg sz hashes) fs3)
           (success_result cfg sz hashes))
        (success_result cfg sz hashes) d ia = Inr m \<and>
      finish_backup X cfg env d sz (hashes, ia, fs3) =
        Inr (success_result cfg sz hashes,
             (logged X cfg env d (success_result cfg sz hashes) fs3)
               (manifest_path cfg \<mapsto> json_dump X m))"
proof -
  let ?r = "success_result cfg sz hashes"
  let ?fs4 = "logged X cfg env d ?r fs3"
  have num: "as_number (disk_size ?r) \<noteq> None"
    "as_number (dict_get d ''VolumeSize'' (disk_size ?r)) \<noteq> None"
    using assms(1,2) by simp_all
  have "\<exists>m. manifest_dict cfg (manifest_now env) (fresh_uuid env) (platform env)
        (extract_tree_summary X cfg ?fs4) (iso_file_size ?fs4 ?r) ?r d ia = Inr m"
    by (rule manifest_dict_ok [OF num assms(3)])
  then obtain m where m: "manifest_dict cfg (manifest_now env) (fresh_uuid env) (platform env)
        (extract_tree_summary X cfg ?fs4) (iso_file_size ?fs4 ?r) ?r d ia = Inr m"
    by blast
  have fin: "finalize_disk cfg env = Inr ()"
    using assms(4) by (auto simp: finalize_disk_def is_completed_iff)
  obtain sp where sp: "speed_mb_s ?r (creation_time ?r) = Inr sp"
    using speed_mb_s_ok [OF num(1)] by blast
  have summ: "generate_summary cfg ?r = Inr ()"
    using sp by (simp add: generate_summary_def)
  have logw: "create_formatted_log X cfg env fs3 ?r d = Inr ?fs4"
    using sp assms(1) by (auto simp: create_formatted_log_def need_number_def logged_def)
  have "finish_backup X cfg env d sz (hashes, ia, fs3) =
        Inr (?r, ?fs4(manifest_path cfg \<mapsto> json_dump X m))"
    unfolding finish_backup_def
    using fin summ logw m
    by (simp add: create_manifest_def Let_def)
  with m show ?thesis by blast
qed

subsection \<open>Fields of the manifest\<close>


lemma not_found_structural:
  "\<exists>s. structural_analysis not_found_analysis = Inr s \<and>
       get_path [''analysis_performed''] s = Some (JBool False) \<and>
       get_path [''error''] s = Some (JStr ''isolyzer not installed'') \<and>
       get_path [''error_type''] s = None"
  by (simp add: structural_analysis_def not_found_analysis_def dict_get_def obj_get_def
      need_number_def extract_filesystem_info_def iter_items_def has_key_def)



subsection \<open>Dry runs\<close>

lemma checksum_match_same:
  assumes "md5_iso r = Some h" and "md5_raw r = Some h"
  shows "checksum_match r \<noteq> Some False"
  using assms by (simp add: checksum_match_def)

lemma log_path_distinct:
  "log_path cfg \<noteq> output_path cfg" "log_path cfg \<noteq> tree_path cfg"
  "tree_path cfg \<noteq> output_path cfg" "isolyzer_path cfg \<noteq> output_path cfg"
  by (simp_all add: path_defs)





subsection \<open>Runs that copy\<close>

lemma create_and_verify_iso_ok:
  assumes "dd_returncode env = 0" and "as_number sz \<noteq> None"
  shows "create_and_verify_iso X cfg env fs sz =
     Inr ((copy_seconds env,
           md5hex X (concat (blocks_read (dd_blocks env))),
           md5hex X (concat (blocks_read (dd_blocks env)))),
          fs(output_path cfg \<mapsto> concat (blocks_read (dd_blocks env))))"
proof -
  have fed: "iso_hasher (copy_loop (dd_blocks env) copy_init) = concat (blocks_read (dd_blocks env))"
    by (simp add: copy_loop_fed copy_init_def md5_new_def)
  have same: "raw_hasher (copy_loop (dd_blocks env) copy_init) =
      iso_hasher (copy_loop (dd_blocks env) copy_init)"
    by (rule sym, rule copy_loop_hashers) (simp add: copy_init_def)
  have wr: "iso_file (copy_loop (dd_blocks env) copy_init) = concat (blocks_read (dd_blocks env))"
    by (simp add: copy_loop_file copy_init_def)
  show ?thesis
    using assms by (simp add: create_and_verify_iso_def Let_def fed same wr hexdigest_def)
qed

lemma analyze_not_found:
  assumes "isolyzer_cmd env = NotFound"
  shows "analyze_iso_structure X cfg env fs = (not_found_analysis, fs)"
  using assms by (simp add: analyze_iso_structure_def not_found_analysis_def)

lemma copy_run_completes:
  assumes "\<not> dry_run cfg" and "checks_pass X cfg env fs d" and "unmount_disk env = Inr u"
    and "dd_returncode env = 0" and "isolyzer_cmd env = NotFound"
  shows "\<exists>result fs' m ts sz.
     create_backup X cfg env fs = Inr (result, fs') \<and>
     success result \<and>
     md5_iso result = Some (md5hex X (concat (blocks_read (dd_blocks env)))) \<and>
     md5_raw result = Some (md5hex X (concat (blocks_read (dd_blocks env)))) \<and>
     manifest_dict cfg (manifest_now env) (fresh_uuid env) (platform env) ts sz result d
       not_found_analysis = Inr m \<and>
     fs' (manifest_path cfg) = Some (json_dump X m) \<and>
     fs' (output_path cfg) = Some (concat (blocks_read (dd_blocks env)))"
proof -
  let ?sz = "dict_get d ''TotalSize'' (JInt 0)"
  let ?dg = "md5hex X (concat (blocks_read (dd_blocks env)))"
  let ?h = "(copy_seconds env, ?dg, ?dg)"
  let ?r = "success_result cfg ?sz ?h"
  let ?fs1 = "generate_tree_listing cfg env fs"
  let ?fs2 = "?fs1(output_path cfg \<mapsto> concat (blocks_read (dd_blocks env)))"
  let ?fs4 = "logged X cfg env d ?r ?fs2"
  from assms(2) have num: "as_number ?sz \<noteq> None" "as_number (dict_get d ''VolumeSize'' ?sz) \<noteq> None"
    by (simp_all add: checks_pass_def)
  obtain s where s: "structural_analysis not_found_analysis = Inr s"
    using not_found_structural by blast
  have img: "image_step X cfg env ?fs1 ?sz = Inr (?h, not_found_analysis, ?fs2)"
    using assms(1)
    by (simp add: image_step_def create_and_verify_iso_ok [OF assms(4) num(1)]
        analyze_not_found [OF assms(5)])
  from finish_backup_ok [OF num s, of cfg env X ?h ?fs2] assms(1)
  obtain m where
    m: "manifest_dict cfg (manifest_now env) (fresh_uuid env) (platform env)
        (extract_tree_summary X cfg ?fs4) (iso_file_size ?fs4 ?r) ?r d not_found_analysis = Inr m"
    and fin: "finish_backup X cfg env d ?sz (?h, not_found_analysis, ?fs2) =
        Inr (?r, ?fs4(manifest_path cfg \<mapsto> json_dump X m))"
    by blast
  have run: "create_backup X cfg env fs = Inr (?r, ?fs4(manifest_path cfg \<mapsto> json_dump X m))"
    using assms(1,3) fin img
    by (simp add: create_backup_proceeds [OF assms(2)])
  have written: "(?fs4(manifest_path cfg \<mapsto> json_dump X m)) (output_path cfg) =
      Some (concat (blocks_read (dd_blocks env)))"
    using manifest_path_distinct(1) [of cfg] log_path_distinct [of cfg]
    by (simp add: logged_def)
  from run m written show ?thesis
    by (intro exI conjI) (assumption | simp)+
qed


lemma example_copy_checks_pass:
  "checks_pass example_externals example_config example_environment no_files example_disk_info"
  by (simp add: checks_pass_def example_environment_simps example_disk_info_def dict_get_def
      is_completed_def no_files_def)

lemma example_unmount: "unmount_disk example_environment = Inr True"
  by (simp add: unmount_disk_def example_environment_simps)

lemma example_not_dry: "\<not> dry_run example_config"
  by (simp add: example_config_def)





lemma line_Y_accepts:
  "lower (unicode_lower example_externals) (strip (code_points ''Y'')) = code_points ''y''"
  by (simp add: prompt_defs)

text \<open>
  Claim C7 as stated fails for an answer other than \<open>y\<close> that lower-cases to it:
  after \<open>Y\<close> the run goes on and replaces the existing ISO file.
\<close>

theorem C7_capital_Y_counterexample:
  "code_points ''Y'' \<noteq> code_points ''y'' \<and>
   old_iso (output_path example_config) = Some ''old'' \<and>
   map_sum id (\<lambda>done. (success (fst done), snd done (output_path example_config)))
     (create_backup example_externals example_config
        (example_environment\<lparr>overwrite_answer := Some (code_points ''Y'')\<rparr>) old_iso) =
     Inr (True, Some ''abc'')"
proof -
  let ?env = "example_environment\<lparr>overwrite_answer := Some (code_points ''Y'')\<rparr>"
  have cp: "checks_pass example_externals example_config ?env old_iso example_disk_info"
    by (simp add: checks_pass_def example_environment_simps example_disk_info_def dict_get_def
        is_completed_def answered_yes_def line_Y_accepts)
  have un: "unmount_disk ?env = Inr True"
    by (simp add: unmount_disk_def example_environment_simps)
  have dd: "dd_returncode ?env = 0" "isolyzer_cmd ?env = NotFound"
    by (simp_all add: example_environment_simps)
  have blocks: "concat (blocks_read (dd_blocks ?env)) = ''abc''"
    by (simp add: example_environment_simps blocks_read_def)
  from copy_run_completes [OF example_not_dry cp un dd]
  obtain result fs' where
    "create_backup example_externals example_config ?env old_iso = Inr (result, fs')"
    "success result" "fs' (output_path example_config) = Some ''abc''"
    unfolding blocks by blast
  then show ?thesis
    by (simp add: old_iso_exists code_points_def)
qed

subsection \<open>The no-verification flag\<close>

lemma no_verification_paths:
  "output_path (cfg\<lparr>no_verification := b\<rparr>) = output_path cfg"
  "log_path (cfg\<lparr>no_verification := b\<rparr>) = log_path cfg"
  "manifest_path (cfg\<lparr>no_verification := b\<rparr>) = manifest_path cfg"
  "tree_path (cfg\<lparr>no_verification := b\<rparr>) = tree_path cfg"
  "isolyzer_path (cfg\<lparr>no_verification := b\<rparr>) = isolyzer_path cfg"
  "log_fields (cfg\<lparr>no_verification := b\<rparr>) = log_fields cfg"
  by (simp_all add: path_defs log_fields_def)

lemma no_verification_sections:
  "backup_metadata (cfg\<lparr>no_verification := b\<rparr>) = backup_metadata cfg"
  "source_disc (cfg\<lparr>no_verification := b\<rparr>) = source_disc cfg"
  "volume_information (cfg\<lparr>no_verification := b\<rparr>) = volume_information cfg"
  "output_files (cfg\<lparr>no_verification := b\<rparr>) = output_files cfg"
  "technical_details (cfg\<lparr>no_verification := b\<rparr>) = technical_details cfg"
  by (simp_all add: fun_eq_iff backup_metadata_def source_disc_def volume_information_def
      output_files_def technical_details_def no_verification_paths)

lemma no_verification_blank:
  "blank_verification_performed
     (JObj [(k1, v1), (''backup_status'', backup_status (cfg\<lparr>no_verification := b\<rparr>) r sz),
            (k3, v3), (k4, v4), (k5, v5),
            (''operations_performed'', operations_performed (cfg\<lparr>no_verification := b\<rparr>) r ts),
            (k7, v7), (k8, v8), (k9, v9), (k10, v10), (k11, v11), (k12, v12)]) =
   blank_verification_performed
     (JObj [(k1, v1), (''backup_status'', backup_status cfg r sz),
            (k3, v3), (k4, v4), (k5, v5),
            (''operations_performed'', operations_performed cfg r ts),
            (k7, v7), (k8, v8), (k9, v9), (k10, v10), (k11, v11), (k12, v12)])"
  by (simp add: blank_verification_performed_def backup_status_def operations_performed_def
      shell_equivalent_def no_verification_paths)

lemma manifest_dict_no_verification:
  "map_sum id blank_verification_performed
     (manifest_dict (cfg\<lparr>no_verification := b\<rparr>) now uuid pf ts sz r d ia) =
   map_sum id blank_verification_performed (manifest_dict cfg now uuid pf ts sz r d ia)"
  unfolding manifest_dict_def then_do_def
  by (simp split: sum.splits add: no_verification_sections no_verification_blank)


lemma forget_manifest_simps [simp]:
  "forget_manifest cfg (Inl e) = Inl e"
  "forget_manifest cfg (Inr (r, fs)) = Inr (r, fs(manifest_path cfg := None))"
  by (simp_all add: forget_manifest_def)

lemma forget_manifest_then_do:
  assumes "\<And>x. forget_manifest cfg (f x) = forget_manifest cfg (g x)"
  shows "forget_manifest cfg (then_do m f) = forget_manifest cfg (then_do m g)"
  using assms by (cases m) simp_all

lemma create_manifest_no_verification:
  "forget_manifest cfg
     (then_do (create_manifest X (cfg\<lparr>no_verification := b\<rparr>) env fs r d ia) (\<lambda>fs5. Inr (r, fs5))) =
   forget_manifest cfg
     (then_do (create_manifest X cfg env fs r d ia) (\<lambda>fs5. Inr (r, fs5)))"
proof -
  let ?A = "manifest_dict (cfg\<lparr>no_verification := b\<rparr>) (manifest_now env) (fresh_uuid env)
      (platform env) (extract_tree_summary X cfg fs) (iso_file_size fs r) r d ia"
  let ?B = "manifest_dict cfg (manifest_now env) (fresh_uuid env)
      (platform env) (extract_tree_summary X cfg fs) (iso_file_size fs r) r d ia"
  have tree: "extract_tree_summary X (cfg\<lparr>no_verification := b\<rparr>) fs = extract_tree_summary X cfg fs"
    by (simp add: extract_tree_summary_def no_verification_paths split: option.splits)
  have eq: "map_sum id blank_verification_performed ?A = map_sum id blank_verification_performed ?B"
    by (rule manifest_dict_no_verification)
  show ?thesis
  proof (cases ?A)
    case (Inl e)
    with eq have "?B = Inl e" by (cases ?B) simp_all
    with Inl show ?thesis
      by (simp add: create_manifest_def tree no_verification_paths)
  next
    case (Inr m)
    with eq obtain m' where "?B = Inr m'" by (cases ?B) simp_all
    with Inr show ?thesis
      by (simp add: create_manifest_def tree no_verification_paths)
  qed
qed

lemma no_verification_copy:
  "create_and_verify_iso X (cfg\<lparr>no_verification := b\<rparr>) = create_and_verify_iso X cfg"
  "analyze_iso_structure X (cfg\<lparr>no_verification := b\<rparr>) = analyze_iso_structure X cfg"
  by (unfold create_and_verify_iso_def analyze_iso_structure_def no_verification_paths)
     (rule refl)+

lemma no_verification_select:
  "dry_run (cfg\<lparr>no_verification := b\<rparr>) = dry_run cfg"
  "disk_id (cfg\<lparr>no_verification := b\<rparr>) = disk_id cfg"
  by simp_all

lemma no_verification_steps:
  "finalize_disk (cfg\<lparr>no_verification := b\<rparr>) = finalize_disk cfg"
  "success_result (cfg\<lparr>no_verification := b\<rparr>) = success_result cfg"
  "generate_summary (cfg\<lparr>no_verification := b\<rparr>) = generate_summary cfg"
  "create_formatted_log X (cfg\<lparr>no_verification := b\<rparr>) = create_formatted_log X cfg"
  "generate_tree_listing (cfg\<lparr>no_verification := b\<rparr>) = generate_tree_listing cfg"
  "image_step X (cfg\<lparr>no_verification := b\<rparr>) = image_step X cfg"
  "failed_result (cfg\<lparr>no_verification := b\<rparr>) = failed_result cfg"
  by (unfold finalize_disk_def success_result_def generate_summary_def
      create_formatted_log_def generate_tree_listing_def image_step_def
      no_verification_copy failed_result_def no_verification_paths no_verification_select)
     (rule refl)+

lemma finish_backup_no_verification:
  "forget_manifest cfg (finish_backup X (cfg\<lparr>no_verification := b\<rparr>) env d sz img) =
   forget_manifest cfg (finish_backup X cfg env d sz img)"
  unfolding finish_backup_def Let_def no_verification_steps
  by (intro forget_manifest_then_do create_manifest_no_verification)

lemma create_backup_no_verification:
  "forget_manifest cfg (create_backup X (cfg\<lparr>no_verification := b\<rparr>) env fs) =
   forget_manifest cfg (create_backup X cfg env fs)"
  unfolding create_backup_def no_verification_steps no_verification_paths
    no_verification_select
  by (auto intro!: forget_manifest_then_do finish_backup_no_verification)

lemma run_exit_forget_manifest:
  "run_exit (forget_manifest cfg r) = run_exit r"
  by (cases r) (auto simp: run_exit_def forget_manifest_def)

lemma digests_forget_manifest:
  "map_sum id (\<lambda>done. f (fst done)) (forget_manifest cfg r) = map_sum id (\<lambda>done. f (fst done)) r"
  by (cases r) (auto simp: forget_manifest_def)

lemma manifest_verification_fields:
  assumes "manifest_dict cfg now uuid pf ts sz r d ia = Inr m"
  shows "get_path [''backup_status'', ''verification_performed''] m =
           Some (JBool (\<not> no_verification cfg \<and> \<not> dry_run cfg))"
    and "get_path [''operations_performed'', ''verification'', ''performed''] m =
           Some (JBool (\<not> no_verification cfg \<and> \<not> dry_run cfg))"
  using assms
  by (elim manifest_dict_Inr; simp add: backup_status_def operations_performed_def)+

text \<open>
  Claim C9. For a run that is not a dry run, the two runs that differ only in the
  no-verification flag end alike: the same exception, or the same result (with the
  same two digests and the same comparison) and the same files except for the
  manifest; the exit status is the same; the two manifests are equal except for
  \<open>backup_status.verification_performed\<close> and
  \<open>operations_performed.verification.performed\<close>, and these two fields are the
  negation of the flag.
\<close>

theorem C9_no_verification_flag:
  assumes "\<not> dry_run cfg"
  shows "forget_manifest cfg (create_backup X (cfg\<lparr>no_verification := True\<rparr>) env fs) =
         forget_manifest cfg (create_backup X (cfg\<lparr>no_verification := False\<rparr>) env fs) \<and>
     map_sum id (\<lambda>done. (md5_iso (fst done), md5_raw (fst done), checksum_match (fst done)))
       (create_backup X (cfg\<lparr>no_verification := True\<rparr>) env fs) =
     map_sum id (\<lambda>done. (md5_iso (fst done), md5_raw (fst done), checksum_match (fst done)))
       (create_backup X (cfg\<lparr>no_verification := False\<rparr>) env fs) \<and>
     run_exit (create_backup X (cfg\<lparr>no_verification := True\<rparr>) env fs) =
     run_exit (create_backup X (cfg\<lparr>no_verification := False\<rparr>) env fs) \<and>
     map_sum id blank_verification_performed
       (manifest_dict (cfg\<lparr>no_verification := True\<rparr>) now uuid pf ts sz r d ia) =
     map_sum id blank_verification_performed
       (manifest_dict (cfg\<lparr>no_verification := False\<rparr>) now uuid pf ts sz r d ia) \<and>
     (\<forall>b m. manifest_dict (cfg\<lparr>no_verification := b\<rparr>) now uuid pf ts sz r d ia = Inr m \<longrightarrow>
        get_path [''backup_status'', ''verification_performed''] m = Some (JBool (\<not> b)) \<and>
        get_path [''operations_performed'', ''verification'', ''performed''] m =
          Some (JBool (\<not> b)))"
proof -
  let ?T = "create_backup X (cfg\<lparr>no_verification := True\<rparr>) env fs"
  let ?F = "create_backup X (cfg\<lparr>no_verification := False\<rparr>) env fs"
  have same: "forget_manifest cfg ?T = forget_manifest cfg ?F"
    by (simp add: create_backup_no_verification)
  have digests: "map_sum id (\<lambda>done. (md5_iso (fst done), md5_raw (fst done), checksum_match (fst done))) ?T =
     map_sum id (\<lambda>done. (md5_iso (fst done), md5_raw (fst done), checksum_match (fst done))) ?F"
    using digests_forget_manifest [of "\<lambda>r. (md5_iso r, md5_raw r, checksum_match r)" cfg ?T]
      digests_forget_manifest [of "\<lambda>r. (md5_iso r, md5_raw r, checksum_match r)" cfg ?F] same
    by simp
  have exit: "run_exit ?T = run_exit ?F"
    using run_exit_forget_manifest [of cfg ?T] run_exit_forget_manifest [of cfg ?F] same by simp
  have manifest: "map_sum id blank_verification_performed
       (manifest_dict (cfg\<lparr>no_verification := True\<rparr>) now uuid pf ts sz r d ia) =
     map_sum id blank_verification_performed
       (manifest_dict (cfg\<lparr>no_verification := False\<rparr>) now uuid pf ts sz r d ia)"
    by (simp add: manifest_dict_no_verification)
  have fields: "get_path [''backup_status'', ''verification_performed''] m = Some (JBool (\<not> b)) \<and>
        get_path [''operations_performed'', ''verification'', ''performed''] m = Some (JBool (\<not> b))"
    if "manifest_dict (cfg\<lparr>no_verification := b\<rparr>) now uuid pf ts sz r d ia = Inr m" for b m
    using manifest_verification_fields [OF that] assms by simp
  from same digests exit manifest fields show ?thesis by blast
qed

theorem C9_no_verification_flag_witness:
  "\<not> dry_run example_config \<and>
   run_exit (create_backup example_externals (example_config\<lparr>no_verification := True\<rparr>)
      example_environment no_files) = 0 \<and>
   run_exit (create_backup example_externals (example_config\<lparr>no_verification := False\<rparr>)
      example_environment no_files) = 0"
proof -
  have cfg: "example_config\<lparr>no_verification := False\<rparr> = example_config"
    by (simp add: example_config_def)
  have zero: "run_exit (create_backup example_externals example_config example_environment
      no_files) = 0"
  proof -
    from copy_run_completes [OF example_not_dry example_copy_checks_pass example_unmount
        example_environment_simps(8) example_environment_simps(10)]
    obtain result fs' where
      run: "create_backup example_externals example_config example_environment no_files =
        Inr (result, fs')"
      and ok: "success result"
      and h: "md5_iso result = Some (md5hex example_externals
                (concat (blocks_read (dd_blocks example_environment))))"
        "md5_raw result = Some (md5hex example_externals
                (concat (blocks_read (dd_blocks example_environment))))"
      by blast
    show ?thesis
      using run ok checksum_match_same [OF h] by (simp add: run_exit_def main_exit_def)
  qed
  from C9_no_verification_flag [OF example_not_dry, of example_externals example_environment
      no_files]
  have "run_exit (create_backup example_externals (example_config\<lparr>no_verification := True\<rparr>)
      example_environment no_files) =
    run_exit (create_backup example_externals (example_config\<lparr>no_verification := False\<rparr>)
      example_environment no_files)"
    by blast
  with zero cfg example_not_dry show ?thesis by simp
qed

end
